theory Spec2Isabelle
  imports Main "HOL-Library.AList" "HOL-Library.List_Lexorder" "HOL-Library.Char_ord"
begin

section \<open>Data model\<close>

text \<open>
  The repository holds three variants of the presence and call-signalling coordinator:
  \<^item> class \<open>SocketManager\<close> of \<^verbatim>\<open>src/controllers/socket.chat.ts\<close> (no server-side timer);
  \<^item> class \<open>SocketManager\<close> of \<^verbatim>\<open>src/unnamed/part_001\<close> (the same handlers, with a
    30 second timer per call and a \<open>recipientName\<close> in the call record); its
    definitions carry the suffix \<open>_p1\<close>;
  \<^item> class \<open>CallHandler\<close> (second file of \<^verbatim>\<open>src/index.ts\<close>, from line 340), whose call
    records carry a \<open>status\<close>; its definitions keep the method names \<open>handleCall...\<close>.

  A JavaScript \<open>Map\<close> iterates in insertion order, \<open>set\<close> on a present key keeps the
  key's position, and \<open>delete\<close> removes the key: an association list with
  \<open>AList.update\<close>, \<open>AList.delete\<close> and \<open>map_of\<close>. \<open>Array.from(m.values())\<close> is
  \<open>map snd\<close>, and \<open>Array.prototype.find\<close> is \<open>List.find\<close>.

  Identifiers and names are JavaScript strings; \<open>new Date()\<close> reads the clock \<open>now\<close>
  of the process, in milliseconds.
\<close>

datatype callType = video | audio

record CallData =
  callId :: string
  callType :: callType
  callerId :: string
  callerName :: string
  callerImage :: "string option"
  recipientId :: string
  timestamp :: nat

text \<open>The call record of \<^verbatim>\<open>part_001\<close> adds \<open>recipientName\<close>.\<close>

record CallDataN = CallData +
  recipientName :: string

datatype callStatus = initiated | ringing | accepted | rejected | ended

text \<open>The call record of \<open>CallHandler\<close> adds \<open>status\<close>.\<close>

record CallDataS = CallData +
  status :: callStatus

record ActiveConversation =
  participants :: "string list"
  roomId :: string
  lastActivity :: nat

text \<open>
  \<open>UserSocket.activeConversations\<close> is the field \<open>userConversations\<close> here: the name
  \<open>activeConversations\<close> is kept for the map of the class.
\<close>

record UserSocket =
  userId :: string
  socketId :: string
  userConversations :: "string list"

text \<open>What a handler reads of its \<open>socket\<close>: \<open>socket.data.userId\<close> and \<open>socket.id\<close>.\<close>

record Socket =
  data_userId :: string
  socket_id :: string

text \<open>
  A pending timer of the runtime: the handle \<open>setTimeout\<close> returned, the time it is due,
  and the \<open>callId\<close> its callback closes over.
\<close>

record Timeout =
  handle :: nat
  due :: nat
  forCall :: string

text \<open>
  The state of the process: the clock, the maps of the class under analysis, and the
  runtime's pending timers. The record has the union of the fields of the three classes;
  the handlers of a class read and write only the fields the class declares
  (\<open>socket.chat.ts\<close>: no \<open>callTimeouts\<close>; \<open>CallHandler\<close>: only \<open>activeCalls\<close> and
  \<open>callTimeouts\<close>). The type parameter is the call record of the class.
\<close>

record 'c server =
  now :: nat
  activeConversations :: "(string \<times> ActiveConversation) list"
  connectedUsers :: "(string \<times> UserSocket) list"
  activeCalls :: "(string \<times> 'c) list"
  callTimeouts :: "(string \<times> nat) list"
  timers :: "Timeout list"
  nextTimer :: nat

text \<open>
  Where an emission goes: \<open>socket.emit\<close> reaches the connection of the handler,
  \<open>io.to(room).emit\<close> reaches the room of that name (every connection joins the room
  named by its user id).
\<close>

datatype target = ToSocket string | ToRoom string

text \<open>
  The events the handlers emit, one constructor per event name (\<open>:\<close> written \<open>_\<close>), with
  the fields of the payload in the order of the source. Optional fields are options;
  the opaque WebRTC payloads (\<open>any\<close>) are strings.
\<close>

datatype 'c event =
    connected string string "string option" "nat option"
  | test_event string nat
  | user_joined_conversation string string "string list"
  | conversation_joined string string "string list" bool
  | user_left_conversation string string "string option"
  | receive_message string string string nat string
  | message_sent bool string bool string
  | user_typing string bool string
  | call_failed string string
  | call_incoming 'c
  | incoming_call string callType string string "string option" nat
  | call_initiated string string string
  | call_error string string
  | call_accepted string string "string option"
  | call_rejected string string string
  | call_ended string string "string option" "int option"
  | call_timeout string "string option"
  | webrtc_error string string
  | webrtc_offer string string string
  | webrtc_answer string string string
  | webrtc_ice_candidate string string string

type_synonym 'c emits = "(target \<times> 'c event) list"

section \<open>Helpers of the classes\<close>

text \<open>
  \<open>[userId1, userId2].sort().join('_')\<close>. The default \<open>sort\<close> orders strings
  lexicographically by their UTF-16 code units. A \<open>char\<close> of this embedding is a code
  unit below 256 (the ids of this application are the hexadecimal object ids that the
  server issues), and on such strings that order is the lexicographic order of
  \<open>string\<close> by character code used here. A string with a code unit of 256 or more is
  outside the type \<open>string\<close>, hence outside the embedding.
\<close>

definition createConversationId :: "string \<Rightarrow> string \<Rightarrow> string" where
  "createConversationId userId1 userId2 =
     (if userId2 < userId1 then userId2 @ ''_'' @ userId1 else userId1 @ ''_'' @ userId2)"

definition getConnectedUsersInConversation :: "'c server \<Rightarrow> string \<Rightarrow> string list" where
  "getConnectedUsersInConversation s conversationId =
     (case map_of (activeConversations s) conversationId of
        None \<Rightarrow> []
      | Some conversation \<Rightarrow>
          filter (\<lambda>u. map_of (connectedUsers s) u \<noteq> None) (participants conversation))"

text \<open>\<open>Math.floor((new Date().getTime() - new Date(startTime).getTime()) / 1000)\<close>\<close>

definition getCallDuration :: "'c server \<Rightarrow> nat \<Rightarrow> int" where
  "getCallDuration s startTime = (int (now s) - int startTime) div 1000"

text \<open>\<open>reason || 'Call rejected'\<close>: an absent or empty reason is falsy.\<close>

definition reason_or :: "string option \<Rightarrow> string \<Rightarrow> string" where
  "reason_or reason dflt =
     (case reason of None \<Rightarrow> dflt | Some r \<Rightarrow> if r = [] then dflt else r)"

section \<open>SocketManager of socket.chat.ts\<close>

definition handleConnection :: "Socket \<Rightarrow> 'c server \<Rightarrow> 'c emits \<times> 'c server" where
  "handleConnection socket s =
     (let uid = data_userId socket in
      ([(ToSocket (socket_id socket),
         connected ''Successfully connected to socket server'' uid None None)],
       s\<lparr>connectedUsers :=
           AList.update uid
             \<lparr>userId = uid, socketId = socket_id socket, userConversations = []\<rparr>
             (connectedUsers s)\<rparr>))"

definition on_join_conversation :: "Socket \<Rightarrow> string \<Rightarrow> 'c server \<Rightarrow> 'c emits \<times> 'c server" where
  "on_join_conversation socket otherUserId s =
     (let uid = data_userId socket;
          conversationId = createConversationId uid otherUserId;
          s1 = (case map_of (activeConversations s) conversationId of
                  None \<Rightarrow>
                    s\<lparr>activeConversations :=
                        AList.update conversationId
                          \<lparr>participants = [uid, otherUserId], roomId = conversationId,
                           lastActivity = now s\<rparr>
                          (activeConversations s)\<rparr>
                | Some conversation \<Rightarrow>
                    s\<lparr>activeConversations :=
                        AList.update conversationId (conversation\<lparr>lastActivity := now s\<rparr>)
                          (activeConversations s)\<rparr>);
          s2 = (case map_of (connectedUsers s1) uid of
                  None \<Rightarrow> s1
                | Some userSocket \<Rightarrow>
                    if conversationId \<notin> set (userConversations userSocket)
                    then s1\<lparr>connectedUsers :=
                             AList.update uid
                               (userSocket\<lparr>userConversations :=
                                  userConversations userSocket @ [conversationId]\<rparr>)
                               (connectedUsers s1)\<rparr>
                    else s1);
          connectedInConversation = getConnectedUsersInConversation s2 conversationId
      in ([(ToRoom conversationId,
            user_joined_conversation uid conversationId connectedInConversation),
           (ToSocket (socket_id socket),
            conversation_joined conversationId otherUserId connectedInConversation
              (otherUserId \<in> set connectedInConversation))],
          s2))"

definition on_leave_conversation :: "Socket \<Rightarrow> string \<Rightarrow> 'c server \<Rightarrow> 'c emits \<times> 'c server" where
  "on_leave_conversation socket otherUserId s =
     (let uid = data_userId socket;
          conversationId = createConversationId uid otherUserId;
          s1 = (case map_of (connectedUsers s) uid of
                  None \<Rightarrow> s
                | Some userSocket \<Rightarrow>
                    s\<lparr>connectedUsers :=
                        AList.update uid
                          (userSocket\<lparr>userConversations :=
                             filter (\<lambda>i. i \<noteq> conversationId) (userConversations userSocket)\<rparr>)
                          (connectedUsers s)\<rparr>)
      in ([(ToRoom conversationId, user_left_conversation uid conversationId None)], s1))"

text \<open>\<open>messageType || 'text'\<close> is \<open>reason_or messageType ''text''\<close>.\<close>

definition on_send_message ::
  "Socket \<Rightarrow> string \<Rightarrow> string \<Rightarrow> string option \<Rightarrow> 'c server \<Rightarrow> 'c emits \<times> 'c server" where
  "on_send_message socket receiverId message messageType s =
     (let uid = data_userId socket;
          conversationId = createConversationId uid receiverId;
          s1 = (case map_of (activeConversations s) conversationId of
                  None \<Rightarrow>
                    s\<lparr>activeConversations :=
                        AList.update conversationId
                          \<lparr>participants = [uid, receiverId], roomId = conversationId,
                           lastActivity = now s\<rparr>
                          (activeConversations s)\<rparr>
                | Some c \<Rightarrow> s);
          s2 = (case map_of (activeConversations s1) conversationId of
                  None \<Rightarrow> s1
                | Some conversation \<Rightarrow>
                    s1\<lparr>activeConversations :=
                         AList.update conversationId (conversation\<lparr>lastActivity := now s\<rparr>)
                           (activeConversations s1)\<rparr>);
          isReceiverOnline = (map_of (connectedUsers s2) receiverId \<noteq> None)
      in ([(ToRoom conversationId,
            receive_message uid message (reason_or messageType ''text'') (now s) conversationId),
           (ToSocket (socket_id socket),
            message_sent True ''Message sent successfully'' isReceiverOnline conversationId)],
          s2))"

definition on_typing :: "bool \<Rightarrow> Socket \<Rightarrow> string \<Rightarrow> 'c server \<Rightarrow> 'c emits \<times> 'c server" where
  "on_typing isTyping socket receiverId s =
     (let uid = data_userId socket;
          conversationId = createConversationId uid receiverId
      in ([(ToRoom conversationId, user_typing uid isTyping conversationId)], s))"

text \<open>
  \<open>call:initiate\<close>. The payload is a call record whose \<open>timestamp\<close> the handler does
  not read: the stored record gets the clock.
\<close>

definition on_call_initiate :: "Socket \<Rightarrow> CallData \<Rightarrow> CallData server \<Rightarrow> CallData emits \<times> CallData server" where
  "on_call_initiate socket d s =
     (if callerId d \<noteq> data_userId socket
      then ([(ToSocket (socket_id socket), call_failed (callId d) ''Authentication error'')], s)
      else case map_of (connectedUsers s) (recipientId d) of
        None \<Rightarrow>
          ([(ToSocket (socket_id socket), call_failed (callId d) ''Recipient is offline'')], s)
      | Some recipientSocket \<Rightarrow>
          (case find (\<lambda>call. recipientId call = recipientId d) (map snd (activeCalls s)) of
             Some existingCall \<Rightarrow>
               ([(ToSocket (socket_id socket),
                  call_failed (callId d) ''Recipient is already in a call'')], s)
           | None \<Rightarrow>
               (let callData =
                      \<lparr>callId = callId d, callType = callType d, callerId = callerId d,
                       callerName = callerName d, callerImage = callerImage d,
                       recipientId = recipientId d, timestamp = now s\<rparr>
                in ([(ToRoom (recipientId d), call_incoming callData),
                     (ToSocket (socket_id socket),
                      call_initiated (callId d) (recipientId d) ''ringing'')],
                    s\<lparr>activeCalls := AList.update (callId d) callData (activeCalls s)\<rparr>))))"

definition on_call_accept :: "Socket \<Rightarrow> string \<Rightarrow> string \<Rightarrow> CallData server \<Rightarrow> CallData emits \<times> CallData server" where
  "on_call_accept socket cid caller s =
     (case map_of (activeCalls s) cid of
        None \<Rightarrow> ([(ToSocket (socket_id socket), call_error cid ''Call not found'')], s)
      | Some callData \<Rightarrow>
          if recipientId callData \<noteq> data_userId socket
          then ([(ToSocket (socket_id socket),
                  call_error cid ''Not authorized to accept this call'')], s)
          else ([(ToRoom caller, call_accepted cid (data_userId socket) (Some ''User''))], s))"

definition on_call_reject ::
  "Socket \<Rightarrow> string \<Rightarrow> string \<Rightarrow> string option \<Rightarrow> CallData server \<Rightarrow> CallData emits \<times> CallData server" where
  "on_call_reject socket cid caller reason s =
     ([(ToRoom caller, call_rejected cid (reason_or reason ''Call rejected'') (data_userId socket))],
      s\<lparr>activeCalls := AList.delete cid (activeCalls s)\<rparr>)"

definition on_call_end :: "Socket \<Rightarrow> string \<Rightarrow> string \<Rightarrow> CallData server \<Rightarrow> CallData emits \<times> CallData server" where
  "on_call_end socket cid recipient s =
     (let callData = map_of (activeCalls s) cid
      in ([(ToRoom recipient,
            call_ended cid (data_userId socket) None
              (Some (case callData of
                       None \<Rightarrow> 0
                     | Some c \<Rightarrow> getCallDuration s (timestamp c))))],
          s\<lparr>activeCalls := AList.delete cid (activeCalls s)\<rparr>))"

definition on_call_timeout :: "Socket \<Rightarrow> string \<Rightarrow> string \<Rightarrow> CallData server \<Rightarrow> CallData emits \<times> CallData server" where
  "on_call_timeout socket cid recipient s =
     ([(ToRoom recipient, call_timeout cid None)],
      s\<lparr>activeCalls := AList.delete cid (activeCalls s)\<rparr>)"

definition on_webrtc_offer ::
  "Socket \<Rightarrow> string \<Rightarrow> string \<Rightarrow> string \<Rightarrow> CallData server \<Rightarrow> CallData emits \<times> CallData server" where
  "on_webrtc_offer socket cid recipient offer s =
     (if map_of (activeCalls s) cid = None
      then ([(ToSocket (socket_id socket), webrtc_error cid ''Call not found'')], s)
      else ([(ToRoom recipient, webrtc_offer cid offer (data_userId socket))], s))"

definition on_webrtc_answer ::
  "Socket \<Rightarrow> string \<Rightarrow> string \<Rightarrow> string \<Rightarrow> CallData server \<Rightarrow> CallData emits \<times> CallData server" where
  "on_webrtc_answer socket cid recipient answer s =
     (if map_of (activeCalls s) cid = None
      then ([(ToSocket (socket_id socket), webrtc_error cid ''Call not found'')], s)
      else ([(ToRoom recipient, webrtc_answer cid answer (data_userId socket))], s))"

definition on_webrtc_ice_candidate ::
  "Socket \<Rightarrow> string \<Rightarrow> string \<Rightarrow> string \<Rightarrow> CallData server \<Rightarrow> CallData emits \<times> CallData server" where
  "on_webrtc_ice_candidate socket cid recipient candidate s =
     (if map_of (activeCalls s) cid = None
      then ([], s)
      else ([(ToRoom recipient, webrtc_ice_candidate cid candidate (data_userId socket))], s))"

text \<open>
  The \<open>activeCalls.forEach\<close> of the disconnect handler: the entries are visited in
  insertion order, and an entry of the departing user is announced to the other party
  and deleted (deleting the entry under visit does not disturb the iteration).
\<close>

fun end_calls_of :: "string \<Rightarrow> (string \<times> CallData) list \<Rightarrow> CallData server \<Rightarrow> CallData emits \<times> CallData server" where
  "end_calls_of uid [] s = ([], s)"
| "end_calls_of uid ((cid, callData) # rest) s =
     (if callerId callData = uid \<or> recipientId callData = uid
      then (let otherUserId =
                  (if callerId callData = uid then recipientId callData else callerId callData);
                r = end_calls_of uid rest (s\<lparr>activeCalls := AList.delete cid (activeCalls s)\<rparr>)
            in ((ToRoom otherUserId, call_ended cid uid (Some ''User disconnected'') None) # fst r,
                snd r))
      else end_calls_of uid rest s)"

definition on_disconnect :: "Socket \<Rightarrow> CallData server \<Rightarrow> CallData emits \<times> CallData server" where
  "on_disconnect socket s =
     (let uid = data_userId socket;
          activeConversationIds =
            (case map_of (connectedUsers s) uid of
               None \<Rightarrow> []
             | Some userSocket \<Rightarrow> userConversations userSocket);
          left = map (\<lambda>conversationId.
                        (ToRoom conversationId,
                         user_left_conversation uid conversationId (Some ''disconnect'')))
                     activeConversationIds;
          r = end_calls_of uid (activeCalls s) s
      in (left @ fst r,
          (snd r)\<lparr>connectedUsers := AList.delete uid (connectedUsers (snd r))\<rparr>))"

section \<open>The runtime's timers\<close>

text \<open>
  \<open>setTimeout(callback, delay)\<close> registers a pending timer under a fresh handle and
  returns the handle; \<open>clearTimeout(handle)\<close> removes it. Every timer of this
  repository runs the timeout callback of its class on the \<open>callId\<close> it closes over.
\<close>

definition setTimeout :: "string \<Rightarrow> nat \<Rightarrow> 'c server \<Rightarrow> nat \<times> 'c server" where
  "setTimeout cid delay s =
     (nextTimer s,
      s\<lparr>timers := timers s @ [\<lparr>handle = nextTimer s, due = now s + delay, forCall = cid\<rparr>],
        nextTimer := Suc (nextTimer s)\<rparr>)"

definition clearTimeout :: "nat \<Rightarrow> 'c server \<Rightarrow> 'c server" where
  "clearTimeout h s = s\<lparr>timers := filter (\<lambda>t. handle t \<noteq> h) (timers s)\<rparr>"

text \<open>\<open>clearCallTimeout\<close>, the same method in \<open>part_001\<close> and in \<open>CallHandler\<close>.\<close>

definition clearCallTimeout :: "string \<Rightarrow> 'c server \<Rightarrow> 'c server" where
  "clearCallTimeout cid s =
     (case map_of (callTimeouts s) cid of
        None \<Rightarrow> s
      | Some timeout \<Rightarrow>
          (clearTimeout timeout s)\<lparr>callTimeouts := AList.delete cid (callTimeouts s)\<rparr>)"

text \<open>
  The event loop with no client event until time \<open>t\<close>: the pending timers due by \<open>t\<close>
  leave the queue and their callbacks run, in the order of their due times (timers due
  together run in the order they were set). \<open>cb\<close> is the callback of the class.
\<close>

fun run_callbacks ::
  "(string \<Rightarrow> 'c server \<Rightarrow> 'c emits \<times> 'c server) \<Rightarrow> Timeout list \<Rightarrow> 'c server \<Rightarrow> 'c emits \<times> 'c server" where
  "run_callbacks cb [] s = ([], s)"
| "run_callbacks cb (t # ts) s =
     (let r1 = cb (forCall t) s;
          r2 = run_callbacks cb ts (snd r1)
      in (fst r1 @ fst r2, snd r2))"

definition idle_until ::
  "(string \<Rightarrow> 'c server \<Rightarrow> 'c emits \<times> 'c server) \<Rightarrow> nat \<Rightarrow> 'c server \<Rightarrow> 'c emits \<times> 'c server" where
  "idle_until cb t s =
     run_callbacks cb
       (sort_key due (filter (\<lambda>x. due x \<le> t) (timers s)))
       (s\<lparr>now := max (now s) t, timers := filter (\<lambda>x. \<not> due x \<le> t) (timers s)\<rparr>)"

section \<open>SocketManager of part_001\<close>

text \<open>
  The conversation, message and typing handlers of \<open>part_001\<close> are, line for line,
  those of \<open>socket.chat.ts\<close> (\<open>on_join_conversation\<close>, \<open>on_leave_conversation\<close>,
  \<open>on_send_message\<close>, \<open>on_typing\<close>, defined above for every call record). The
  handlers that differ follow.
\<close>

definition handleConnection_p1 :: "Socket \<Rightarrow> 'c server \<Rightarrow> 'c emits \<times> 'c server" where
  "handleConnection_p1 socket s =
     (let uid = data_userId socket in
      ([(ToSocket (socket_id socket),
         connected ''Successfully connected to socket server'' uid
           (Some (socket_id socket)) (Some (now s))),
        (ToSocket (socket_id socket), test_event ''Connection test successful'' (now s))],
       s\<lparr>connectedUsers :=
           AList.update uid
             \<lparr>userId = uid, socketId = socket_id socket, userConversations = []\<rparr>
             (connectedUsers s)\<rparr>))"

text \<open>The callback of the timer that \<open>call:initiate\<close> sets.\<close>

definition timeout_callback_p1 :: "string \<Rightarrow> CallDataN server \<Rightarrow> CallDataN emits \<times> CallDataN server" where
  "timeout_callback_p1 cid s =
     (case map_of (activeCalls s) cid of
        None \<Rightarrow> ([], s)
      | Some call \<Rightarrow>
          ([(ToRoom (callerId call), call_timeout cid (Some ''No answer from recipient'')),
            (ToRoom (recipientId call), call_timeout cid (Some ''Call timed out''))],
           s\<lparr>activeCalls := AList.delete cid (activeCalls s),
             callTimeouts := AList.delete cid (callTimeouts s)\<rparr>))"

definition on_call_initiate_p1 :: "Socket \<Rightarrow> CallDataN \<Rightarrow> CallDataN server \<Rightarrow> CallDataN emits \<times> CallDataN server" where
  "on_call_initiate_p1 socket d s =
     (if callerId d \<noteq> data_userId socket
      then ([(ToSocket (socket_id socket), call_failed (callId d) ''Authentication error'')], s)
      else case map_of (connectedUsers s) (recipientId d) of
        None \<Rightarrow>
          ([(ToSocket (socket_id socket), call_failed (callId d) ''Recipient is offline'')], s)
      | Some recipientSocket \<Rightarrow>
          (case find (\<lambda>call. recipientId call = recipientId d) (map snd (activeCalls s)) of
             Some existingCall \<Rightarrow>
               ([(ToSocket (socket_id socket),
                  call_failed (callId d) ''Recipient is already in a call'')], s)
           | None \<Rightarrow>
               (let callData =
                      \<lparr>callId = callId d, callType = callType d, callerId = callerId d,
                       callerName = callerName d, callerImage = callerImage d,
                       recipientId = recipientId d, timestamp = now s,
                       recipientName = recipientName d\<rparr>;
                    s1 = s\<lparr>activeCalls := AList.update (callId d) callData (activeCalls s)\<rparr>;
                    t = setTimeout (callId d) 30000 s1;
                    s2 = (snd t)\<lparr>callTimeouts :=
                                   AList.update (callId d) (fst t) (callTimeouts (snd t))\<rparr>
                in ([(ToRoom (recipientId d), call_incoming callData),
                     (ToSocket (socket_id socket),
                      call_initiated (callId d) (recipientId d) ''ringing'')],
                    s2))))"

fun end_calls_of_p1 :: "string \<Rightarrow> (string \<times> CallDataN) list \<Rightarrow> CallDataN server \<Rightarrow> CallDataN emits \<times> CallDataN server" where
  "end_calls_of_p1 uid [] s = ([], s)"
| "end_calls_of_p1 uid ((cid, callData) # rest) s =
     (if callerId callData = uid \<or> recipientId callData = uid
      then (let otherUserId =
                  (if callerId callData = uid then recipientId callData else callerId callData);
                r = end_calls_of_p1 uid rest
                      (clearCallTimeout cid (s\<lparr>activeCalls := AList.delete cid (activeCalls s)\<rparr>))
            in ((ToRoom otherUserId,
                 call_ended cid uid (Some ''User disconnected'')
                   (Some (getCallDuration s (timestamp callData)))) # fst r,
                snd r))
      else end_calls_of_p1 uid rest s)"

definition on_disconnect_p1 :: "Socket \<Rightarrow> CallDataN server \<Rightarrow> CallDataN emits \<times> CallDataN server" where
  "on_disconnect_p1 socket s =
     (let uid = data_userId socket;
          activeConversationIds =
            (case map_of (connectedUsers s) uid of
               None \<Rightarrow> []
             | Some userSocket \<Rightarrow> userConversations userSocket);
          left = map (\<lambda>conversationId.
                        (ToRoom conversationId,
                         user_left_conversation uid conversationId (Some ''disconnect'')))
                     activeConversationIds;
          r = end_calls_of_p1 uid (activeCalls s) s
      in (left @ fst r,
          (snd r)\<lparr>connectedUsers := AList.delete uid (connectedUsers (snd r))\<rparr>))"

definition on_call_accept_p1 :: "Socket \<Rightarrow> string \<Rightarrow> string \<Rightarrow> CallDataN server \<Rightarrow> CallDataN emits \<times> CallDataN server" where
  "on_call_accept_p1 socket cid caller s =
     (case map_of (activeCalls s) cid of
        None \<Rightarrow> ([(ToSocket (socket_id socket), call_error cid ''Call not found'')], s)
      | Some callData \<Rightarrow>
          if recipientId callData \<noteq> data_userId socket
          then ([(ToSocket (socket_id socket),
                  call_error cid ''Not authorized to accept this call'')], s)
          else ([(ToRoom caller, call_accepted cid (data_userId socket) (Some ''User''))],
                clearCallTimeout cid s))"

definition on_call_reject_p1 ::
  "Socket \<Rightarrow> string \<Rightarrow> string \<Rightarrow> string option \<Rightarrow> CallDataN server \<Rightarrow> CallDataN emits \<times> CallDataN server" where
  "on_call_reject_p1 socket cid caller reason s =
     ([(ToRoom caller, call_rejected cid (reason_or reason ''Call rejected'') (data_userId socket))],
      clearCallTimeout cid (s\<lparr>activeCalls := AList.delete cid (activeCalls s)\<rparr>))"

definition on_call_end_p1 :: "Socket \<Rightarrow> string \<Rightarrow> string \<Rightarrow> CallDataN server \<Rightarrow> CallDataN emits \<times> CallDataN server" where
  "on_call_end_p1 socket cid recipient s =
     (let callData = map_of (activeCalls s) cid
      in ([(ToRoom recipient,
            call_ended cid (data_userId socket) None
              (Some (case callData of
                       None \<Rightarrow> 0
                     | Some c \<Rightarrow> getCallDuration s (timestamp c))))],
          clearCallTimeout cid (s\<lparr>activeCalls := AList.delete cid (activeCalls s)\<rparr>)))"

definition on_call_timeout_p1 :: "Socket \<Rightarrow> string \<Rightarrow> string \<Rightarrow> CallDataN server \<Rightarrow> CallDataN emits \<times> CallDataN server" where
  "on_call_timeout_p1 socket cid recipient s =
     ([(ToRoom recipient, call_timeout cid None)],
      clearCallTimeout cid (s\<lparr>activeCalls := AList.delete cid (activeCalls s)\<rparr>))"

definition on_webrtc_offer_p1 ::
  "Socket \<Rightarrow> string \<Rightarrow> string \<Rightarrow> string \<Rightarrow> CallDataN server \<Rightarrow> CallDataN emits \<times> CallDataN server" where
  "on_webrtc_offer_p1 socket cid recipient offer s =
     (if map_of (activeCalls s) cid = None
      then ([(ToSocket (socket_id socket), webrtc_error cid ''Call not found'')], s)
      else ([(ToRoom recipient, webrtc_offer cid offer (data_userId socket))], s))"

definition on_webrtc_answer_p1 ::
  "Socket \<Rightarrow> string \<Rightarrow> string \<Rightarrow> string \<Rightarrow> CallDataN server \<Rightarrow> CallDataN emits \<times> CallDataN server" where
  "on_webrtc_answer_p1 socket cid recipient answer s =
     (if map_of (activeCalls s) cid = None
      then ([(ToSocket (socket_id socket), webrtc_error cid ''Call not found'')], s)
      else ([(ToRoom recipient, webrtc_answer cid answer (data_userId socket))], s))"

definition on_webrtc_ice_candidate_p1 ::
  "Socket \<Rightarrow> string \<Rightarrow> string \<Rightarrow> string \<Rightarrow> CallDataN server \<Rightarrow> CallDataN emits \<times> CallDataN server" where
  "on_webrtc_ice_candidate_p1 socket cid recipient candidate s =
     (if map_of (activeCalls s) cid = None
      then ([], s)
      else ([(ToRoom recipient, webrtc_ice_candidate cid candidate (data_userId socket))], s))"

section \<open>CallHandler\<close>

text \<open>
  The methods of \<open>CallHandler\<close> that the claims are about. Its three signalling relays
  are those of \<open>socket.chat.ts\<close>, and its client-driven \<open>handleCallTimeout\<close> is
  \<open>on_call_timeout\<close> followed by \<open>clearCallTimeout\<close>; they are not repeated.
\<close>

definition handleCallTimeoutAutomatically :: "string \<Rightarrow> CallDataS server \<Rightarrow> CallDataS emits \<times> CallDataS server" where
  "handleCallTimeoutAutomatically cid s =
     (case map_of (activeCalls s) cid of
        None \<Rightarrow> ([], s)
      | Some callData \<Rightarrow>
          if status callData = ringing
          then ([(ToRoom (callerId callData), call_timeout cid (Some ''No answer from recipient'')),
                 (ToRoom (recipientId callData), call_timeout cid (Some ''Call timed out''))],
                s\<lparr>activeCalls := AList.delete cid (activeCalls s),
                  callTimeouts := AList.delete cid (callTimeouts s)\<rparr>)
          else ([], s))"

definition handleCallInitiate :: "Socket \<Rightarrow> CallData \<Rightarrow> CallDataS server \<Rightarrow> CallDataS emits \<times> CallDataS server" where
  "handleCallInitiate socket d s =
     (if callerId d \<noteq> data_userId socket
      then ([(ToSocket (socket_id socket), call_failed (callId d) ''Authentication error'')], s)
      else case find (\<lambda>call. recipientId call = recipientId d \<and> status call = ringing)
                  (map snd (activeCalls s)) of
        Some existingCall \<Rightarrow>
          ([(ToSocket (socket_id socket),
             call_failed (callId d) ''Recipient is already in a call'')], s)
      | None \<Rightarrow>
          (let callData =
                 \<lparr>callId = callId d, callType = callType d, callerId = callerId d,
                  callerName = callerName d, callerImage = callerImage d,
                  recipientId = recipientId d, timestamp = now s, status = ringing\<rparr>;
               s1 = s\<lparr>activeCalls := AList.update (callId d) callData (activeCalls s)\<rparr>;
               t = setTimeout (callId d) 30000 s1;
               s2 = (snd t)\<lparr>callTimeouts :=
                              AList.update (callId d) (fst t) (callTimeouts (snd t))\<rparr>
           in ([(ToRoom (recipientId d),
                 incoming_call (callId d) (callType d) (callerId d) (callerName d)
                   (callerImage d) (timestamp callData)),
                (ToSocket (socket_id socket),
                 call_initiated (callId d) (recipientId d) ''ringing'')],
               s2)))"

definition handleCallAccept :: "Socket \<Rightarrow> string \<Rightarrow> string \<Rightarrow> CallDataS server \<Rightarrow> CallDataS emits \<times> CallDataS server" where
  "handleCallAccept socket cid caller s =
     (case map_of (activeCalls s) cid of
        None \<Rightarrow> ([(ToSocket (socket_id socket), call_error cid ''Call not found'')], s)
      | Some callData \<Rightarrow>
          if recipientId callData \<noteq> data_userId socket
          then ([(ToSocket (socket_id socket),
                  call_error cid ''Not authorized to accept this call'')], s)
          else ([(ToRoom caller, call_accepted cid (data_userId socket) None)],
                clearCallTimeout cid
                  (s\<lparr>activeCalls :=
                       AList.update cid (callData\<lparr>status := accepted\<rparr>) (activeCalls s)\<rparr>)))"

definition handleCallReject ::
  "Socket \<Rightarrow> string \<Rightarrow> string \<Rightarrow> string option \<Rightarrow> CallDataS server \<Rightarrow> CallDataS emits \<times> CallDataS server" where
  "handleCallReject socket cid caller reason s =
     ([(ToRoom caller, call_rejected cid (reason_or reason ''Call rejected'') (data_userId socket))],
      clearCallTimeout cid (s\<lparr>activeCalls := AList.delete cid (activeCalls s)\<rparr>))"

definition handleCallEnd :: "Socket \<Rightarrow> string \<Rightarrow> string \<Rightarrow> CallDataS server \<Rightarrow> CallDataS emits \<times> CallDataS server" where
  "handleCallEnd socket cid recipient s =
     (let callData = map_of (activeCalls s) cid;
          duration = (case callData of
                        None \<Rightarrow> 0
                      | Some c \<Rightarrow> getCallDuration s (timestamp c))
      in ([(ToRoom recipient, call_ended cid (data_userId socket) None (Some duration))],
          clearCallTimeout cid (s\<lparr>activeCalls := AList.delete cid (activeCalls s)\<rparr>)))"



section \<open>Example connections and payloads\<close>

definition server0 :: "'c server" where
  "server0 = \<lparr>now = 0, activeConversations = [], connectedUsers = [], activeCalls = [],
              callTimeouts = [], timers = [], nextTimer = 0\<rparr>"

definition sock :: "string \<Rightarrow> string \<Rightarrow> Socket" where
  "sock uid sid = \<lparr>data_userId = uid, socket_id = sid\<rparr>"

definition call_of :: "string \<Rightarrow> string \<Rightarrow> string \<Rightarrow> CallData" where
  "call_of cid caller recipient =
     \<lparr>callId = cid, callType = video, callerId = caller, callerName = ''caller'',
      callerImage = None, recipientId = recipient, timestamp = 0\<rparr>"

definition call_of_p1 :: "string \<Rightarrow> string \<Rightarrow> string \<Rightarrow> CallDataN" where
  "call_of_p1 cid caller recipient =
     \<lparr>callId = cid, callType = video, callerId = caller, callerName = ''caller'',
      callerImage = None, recipientId = recipient, timestamp = 0,
      recipientName = ''recipient''\<rparr>"

text \<open>Three users online, each on one connection.\<close>

definition server_online :: "'c server" where
  "server_online =
     snd (handleConnection (sock ''u3'' ''s3'')
       (snd (handleConnection (sock ''u2'' ''s2'')
         (snd (handleConnection (sock ''u1'' ''s1'') server0)))))"

text \<open>\<open>u1\<close> has called \<open>u2\<close> (call \<open>c1\<close>) in \<open>socket.chat.ts\<close>.\<close>

definition server_ringing :: "CallData server" where
  "server_ringing =
     snd (on_call_initiate (sock ''u1'' ''s1'') (call_of ''c1'' ''u1'' ''u2'') server_online)"

text \<open>The same call in \<open>CallHandler\<close>.\<close>

definition handler_ringing :: "CallDataS server" where
  "handler_ringing =
     snd (handleCallInitiate (sock ''u1'' ''s1'') (call_of ''c1'' ''u1'' ''u2'') server0)"

text \<open>
  \<open>u1\<close> connects a second time (connection \<open>s1b\<close>) while the first connection \<open>s1\<close> is
  still open: the registration of \<open>u1\<close> now holds the handle \<open>s1b\<close>.
\<close>

definition server_reconnected :: "'c server" where
  "server_reconnected = snd (handleConnection (sock ''u1'' ''s1b'') server_online)"

text \<open>\<open>socket.chat.ts\<close> sets no timer, so its timer queue has no callback to run.\<close>

definition no_callback :: "string \<Rightarrow> 'c server \<Rightarrow> 'c emits \<times> 'c server" where
  "no_callback cid s = ([], s)"

section \<open>The events of a connection, and the reachable states of socket.chat.ts\<close>

text \<open>
  One constructor per event name that \<open>handleConnection\<close> of \<open>socket.chat.ts\<close>
  registers a handler for, with the connection the event arrives on and the fields of
  its payload; \<open>Connection\<close> is the arrival of a new connection, and \<open>Clock t\<close> is
  time passing until \<open>t\<close> with no event.
\<close>

datatype client_event =
    Connection Socket
  | Join_conversation Socket string
  | Leave_conversation Socket string
  | Send_message Socket string string "string option"
  | Typing_start Socket string
  | Typing_stop Socket string
  | Call_initiate Socket CallData
  | Call_accept Socket string string
  | Call_reject Socket string string "string option"
  | Call_end Socket string string
  | Call_timeout Socket string string
  | Webrtc_offer Socket string string string
  | Webrtc_answer Socket string string string
  | Webrtc_ice_candidate Socket string string string
  | Disconnect Socket
  | Clock nat

fun dispatch :: "client_event \<Rightarrow> CallData server \<Rightarrow> CallData emits \<times> CallData server" where
  "dispatch (Connection socket) s = handleConnection socket s"
| "dispatch (Join_conversation socket otherUserId) s = on_join_conversation socket otherUserId s"
| "dispatch (Leave_conversation socket otherUserId) s = on_leave_conversation socket otherUserId s"
| "dispatch (Send_message socket receiverId message messageType) s =
     on_send_message socket receiverId message messageType s"
| "dispatch (Typing_start socket receiverId) s = on_typing True socket receiverId s"
| "dispatch (Typing_stop socket receiverId) s = on_typing False socket receiverId s"
| "dispatch (Call_initiate socket d) s = on_call_initiate socket d s"
| "dispatch (Call_accept socket cid caller) s = on_call_accept socket cid caller s"
| "dispatch (Call_reject socket cid caller reason) s = on_call_reject socket cid caller reason s"
| "dispatch (Call_end socket cid recipient) s = on_call_end socket cid recipient s"
| "dispatch (Call_timeout socket cid recipient) s = on_call_timeout socket cid recipient s"
| "dispatch (Webrtc_offer socket cid recipient offer) s = on_webrtc_offer socket cid recipient offer s"
| "dispatch (Webrtc_answer socket cid recipient answer) s =
     on_webrtc_answer socket cid recipient answer s"
| "dispatch (Webrtc_ice_candidate socket cid recipient candidate) s =
     on_webrtc_ice_candidate socket cid recipient candidate s"
| "dispatch (Disconnect socket) s = on_disconnect socket s"
| "dispatch (Clock t) s = idle_until no_callback t s"

text \<open>The state after a list of events, from the state \<open>s\<close>.\<close>

fun run :: "client_event list \<Rightarrow> CallData server \<Rightarrow> CallData server" where
  "run [] s = s"
| "run (e # es) s = run es (snd (dispatch e s))"

text \<open>
  The reachable states: the fresh process, and every state an event leads to from a
  reachable state. (Every interleaving of events is allowed, also those no client would
  produce, so what holds of every reachable state holds of every state of a real run.)
\<close>

inductive reachable :: "CallData server \<Rightarrow> bool" where
  fresh: "reachable server0"
| event: "reachable s \<Longrightarrow> reachable (snd (dispatch e s))"




text \<open>The \<open>call:timeout\<close> emissions about the call \<open>cid\<close>, among the emissions of a run.\<close>

definition is_timeout_of :: "string \<Rightarrow> target \<times> 'c event \<Rightarrow> bool" where
  "is_timeout_of cid e = (case snd e of call_timeout c r \<Rightarrow> c = cid | _ \<Rightarrow> False)"

text \<open>In \<open>CallHandler\<close>, \<open>u2\<close> has accepted the call \<open>c1\<close> from \<open>u1\<close>.\<close>

definition handler_accepted :: "CallDataS server" where
  "handler_accepted = snd (handleCallAccept (sock ''u2'' ''s2'') ''c1'' ''u1'' handler_ringing)"

section \<open>The events and the reachable states of part_001\<close>

text \<open>
  The events of a connection of \<open>part_001\<close>, as \<open>client_event\<close> is for
  \<open>socket.chat.ts\<close>. \<open>Ping_p1\<close> is the \<open>ping\<close> event, whose handler only calls the
  acknowledgement it is given; \<open>Clock_p1 t\<close> is the event loop with no client event
  until time \<open>t\<close>, running the timers due by then.
\<close>

datatype client_event_p1 =
    Connection_p1 Socket
  | Ping_p1 Socket
  | Join_conversation_p1 Socket string
  | Leave_conversation_p1 Socket string
  | Send_message_p1 Socket string string "string option"
  | Typing_start_p1 Socket string
  | Typing_stop_p1 Socket string
  | Call_initiate_p1 Socket CallDataN
  | Call_accept_p1 Socket string string
  | Call_reject_p1 Socket string string "string option"
  | Call_end_p1 Socket string string
  | Call_timeout_p1 Socket string string
  | Webrtc_offer_p1 Socket string string string
  | Webrtc_answer_p1 Socket string string string
  | Webrtc_ice_candidate_p1 Socket string string string
  | Disconnect_p1 Socket
  | Clock_p1 nat

fun dispatch_p1 :: "client_event_p1 \<Rightarrow> CallDataN server \<Rightarrow> CallDataN emits \<times> CallDataN server" where
  "dispatch_p1 (Connection_p1 socket) s = handleConnection_p1 socket s"
| "dispatch_p1 (Ping_p1 socket) s = ([], s)"
| "dispatch_p1 (Join_conversation_p1 socket otherUserId) s =
     on_join_conversation socket otherUserId s"
| "dispatch_p1 (Leave_conversation_p1 socket otherUserId) s =
     on_leave_conversation socket otherUserId s"
| "dispatch_p1 (Send_message_p1 socket receiverId message messageType) s =
     on_send_message socket receiverId message messageType s"
| "dispatch_p1 (Typing_start_p1 socket receiverId) s = on_typing True socket receiverId s"
| "dispatch_p1 (Typing_stop_p1 socket receiverId) s = on_typing False socket receiverId s"
| "dispatch_p1 (Call_initiate_p1 socket d) s = on_call_initiate_p1 socket d s"
| "dispatch_p1 (Call_accept_p1 socket cid caller) s = on_call_accept_p1 socket cid caller s"
| "dispatch_p1 (Call_reject_p1 socket cid caller reason) s =
     on_call_reject_p1 socket cid caller reason s"
| "dispatch_p1 (Call_end_p1 socket cid recipient) s = on_call_end_p1 socket cid recipient s"
| "dispatch_p1 (Call_timeout_p1 socket cid recipient) s =
     on_call_timeout_p1 socket cid recipient s"
| "dispatch_p1 (Webrtc_offer_p1 socket cid recipient offer) s =
     on_webrtc_offer_p1 socket cid recipient offer s"
| "dispatch_p1 (Webrtc_answer_p1 socket cid recipient answer) s =
     on_webrtc_answer_p1 socket cid recipient answer s"
| "dispatch_p1 (Webrtc_ice_candidate_p1 socket cid recipient candidate) s =
     on_webrtc_ice_candidate_p1 socket cid recipient candidate s"
| "dispatch_p1 (Disconnect_p1 socket) s = on_disconnect_p1 socket s"
| "dispatch_p1 (Clock_p1 t) s = idle_until timeout_callback_p1 t s"

text \<open>A list of events from the state \<open>s\<close>: all that is emitted, and the state after.\<close>

fun run_p1 :: "client_event_p1 list \<Rightarrow> CallDataN server \<Rightarrow> CallDataN emits \<times> CallDataN server" where
  "run_p1 [] s = ([], s)"
| "run_p1 (e # es) s =
     (let r1 = dispatch_p1 e s;
          r2 = run_p1 es (snd r1)
      in (fst r1 @ fst r2, snd r2))"

inductive reachable_p1 :: "CallDataN server \<Rightarrow> bool" where
  fresh_p1: "reachable_p1 server0"
| event_p1: "reachable_p1 s \<Longrightarrow> reachable_p1 (snd (dispatch_p1 e s))"

text \<open>
  The events of \<open>part_001\<close> that name the call \<open>cid\<close> or take one of its parties
  away: an initiate, accept, reject, end or client-sent timeout with that \<open>callId\<close>,
  from any connection, and the disconnect of a connection of its caller or recipient.
\<close>

fun touches_call_p1 :: "string \<Rightarrow> string \<Rightarrow> string \<Rightarrow> client_event_p1 \<Rightarrow> bool" where
  "touches_call_p1 cid caller recipient (Call_initiate_p1 socket d) = (callId d = cid)"
| "touches_call_p1 cid caller recipient (Call_accept_p1 socket c x) = (c = cid)"
| "touches_call_p1 cid caller recipient (Call_reject_p1 socket c x reason) = (c = cid)"
| "touches_call_p1 cid caller recipient (Call_end_p1 socket c x) = (c = cid)"
| "touches_call_p1 cid caller recipient (Call_timeout_p1 socket c x) = (c = cid)"
| "touches_call_p1 cid caller recipient (Disconnect_p1 socket) =
     (data_userId socket = caller \<or> data_userId socket = recipient)"
| "touches_call_p1 cid caller recipient e = False"

text \<open>
  The events of \<open>socket.chat.ts\<close> that remove or replace the record of the call \<open>cid\<close>:
  an initiate, reject, end or client-sent timeout with that \<open>callId\<close>, from any
  connection, and the disconnect of a connection of its caller or recipient.
\<close>

fun removes_call :: "string \<Rightarrow> string \<Rightarrow> string \<Rightarrow> client_event \<Rightarrow> bool" where
  "removes_call cid caller recipient (Call_initiate socket d) = (callId d = cid)"
| "removes_call cid caller recipient (Call_reject socket c x reason) = (c = cid)"
| "removes_call cid caller recipient (Call_end socket c x) = (c = cid)"
| "removes_call cid caller recipient (Call_timeout socket c x) = (c = cid)"
| "removes_call cid caller recipient (Disconnect socket) =
     (data_userId socket = caller \<or> data_userId socket = recipient)"
| "removes_call cid caller recipient e = False"




text \<open>In \<open>part_001\<close>, \<open>u1\<close> calls \<open>u2\<close> (call \<open>c1\<close>) at time 0.\<close>

definition p1_call :: "client_event_p1" where
  "p1_call = Call_initiate_p1 (sock ''u1'' ''s1'') (call_of_p1 ''c1'' ''u1'' ''u2'')"

text \<open>
  The call \<open>cid\<close> of \<open>part_001\<close> is still ringing: its record \<open>cd\<close> is stored, its
  timer (handle \<open>h\<close>, due at \<open>D\<close>) is pending and not yet due, and no other entry of
  \<open>callTimeouts\<close> holds the handle. The invariant of the proof of C4.
\<close>

definition still_ringing :: "string \<Rightarrow> CallDataN \<Rightarrow> nat \<Rightarrow> nat \<Rightarrow> CallDataN server \<Rightarrow> bool" where
  "still_ringing cid cd h D s \<longleftrightarrow>
     map_of (activeCalls s) cid = Some cd
     \<and> \<lparr>handle = h, due = D, forCall = cid\<rparr> \<in> set (timers s)
     \<and> now s < D
     \<and> h < nextTimer s
     \<and> (\<forall>p \<in> set (callTimeouts s). fst p \<noteq> cid \<longrightarrow> snd p \<noteq> h)
     \<and> distinct (map fst (activeCalls s))"

text \<open>The two \<open>call:timeout\<close> notifications of the timer callback, for the record \<open>cd\<close>.\<close>

definition timeout_pair :: "string \<Rightarrow> CallDataN \<Rightarrow> CallDataN emits" where
  "timeout_pair cid cd =
     [(ToRoom (callerId cd), call_timeout cid (Some ''No answer from recipient'')),
      (ToRoom (recipientId cd), call_timeout cid (Some ''Call timed out''))]"

text \<open>The three users come online in \<open>part_001\<close>.\<close>

definition p1_connections :: "client_event_p1 list" where
  "p1_connections =
     [Connection_p1 (sock ''u1'' ''s1''), Connection_p1 (sock ''u2'' ''s2''),
      Connection_p1 (sock ''u3'' ''s3'')]"

text \<open>The state of \<open>part_001\<close> in which the call \<open>c1\<close> from \<open>u1\<close> to \<open>u2\<close> rings.\<close>

definition p1_ringing :: "CallDataN server" where
  "p1_ringing = snd (run_p1 (p1_connections @ [p1_call]) server0)"


section \<open>Facts about the maps and the example states\<close>

lemma delete_absent: "map_of xs k = None \<Longrightarrow> AList.delete k xs = xs"
  by (induction xs) (auto split: if_splits)

lemma map_of_delete_same: "map_of (AList.delete k xs) k = None"
  by (simp add: delete_conv)

lemma clearCallTimeout_activeCalls [simp]:
  "activeCalls (clearCallTimeout cid s) = activeCalls s"
  by (simp add: clearCallTimeout_def clearTimeout_def split: option.splits)

lemma clearCallTimeout_connectedUsers [simp]:
  "connectedUsers (clearCallTimeout cid s) = connectedUsers s"
  by (simp add: clearCallTimeout_def clearTimeout_def split: option.splits)

lemma clearCallTimeout_now [simp]:
  "now (clearCallTimeout cid s) = now s"
  by (simp add: clearCallTimeout_def clearTimeout_def split: option.splits)

lemma server_online_eq:
  "server_online =
     \<lparr>now = 0, activeConversations = [],
      connectedUsers =
        [(''u1'', \<lparr>userId = ''u1'', socketId = ''s1'', userConversations = []\<rparr>),
         (''u2'', \<lparr>userId = ''u2'', socketId = ''s2'', userConversations = []\<rparr>),
         (''u3'', \<lparr>userId = ''u3'', socketId = ''s3'', userConversations = []\<rparr>)],
      activeCalls = [], callTimeouts = [], timers = [], nextTimer = 0\<rparr>"
  by (simp add: server_online_def handleConnection_def server0_def sock_def Let_def)

lemma server_ringing_eq:
  "server_ringing =
     \<lparr>now = 0, activeConversations = [],
      connectedUsers =
        [(''u1'', \<lparr>userId = ''u1'', socketId = ''s1'', userConversations = []\<rparr>),
         (''u2'', \<lparr>userId = ''u2'', socketId = ''s2'', userConversations = []\<rparr>),
         (''u3'', \<lparr>userId = ''u3'', socketId = ''s3'', userConversations = []\<rparr>)],
      activeCalls = [(''c1'', call_of ''c1'' ''u1'' ''u2'')],
      callTimeouts = [], timers = [], nextTimer = 0\<rparr>"
  by (simp add: server_ringing_def server_online_eq on_call_initiate_def sock_def call_of_def
      Let_def)

lemma handler_ringing_eq:
  "handler_ringing =
     \<lparr>now = 0, activeConversations = [], connectedUsers = [],
      activeCalls =
        [(''c1'', \<lparr>callId = ''c1'', callType = video, callerId = ''u1'', callerName = ''caller'',
                   callerImage = None, recipientId = ''u2'', timestamp = 0, status = ringing\<rparr>)],
      callTimeouts = [(''c1'', 0)],
      timers = [\<lparr>handle = 0, due = 30000, forCall = ''c1''\<rparr>], nextTimer = 1\<rparr>"
  by (simp add: handler_ringing_def handleCallInitiate_def server0_def sock_def call_of_def
      setTimeout_def Let_def)

lemma server_reconnected_eq:
  "server_reconnected =
     \<lparr>now = 0, activeConversations = [],
      connectedUsers =
        [(''u1'', \<lparr>userId = ''u1'', socketId = ''s1b'', userConversations = []\<rparr>),
         (''u2'', \<lparr>userId = ''u2'', socketId = ''s2'', userConversations = []\<rparr>),
         (''u3'', \<lparr>userId = ''u3'', socketId = ''s3'', userConversations = []\<rparr>)],
      activeCalls = [], callTimeouts = [], timers = [], nextTimer = 0\<rparr>"
  by (simp add: server_reconnected_def server_online_eq handleConnection_def sock_def Let_def)

section \<open>C10: reject and end never check the actor\<close>

text \<open>
  C10. For every \<open>call:reject\<close> and \<open>call:end\<close> event, from any connection and with any
  \<open>callId\<close>, the handler deletes the record under that \<open>callId\<close> and sends the
  notification to the user the payload names (its \<open>callerId\<close>, its \<open>recipientId\<close>), not
  to a party read from the record; the user of the connection is never compared with the
  caller or the callee. Both in \<open>socket.chat.ts\<close> (state \<open>s\<close>) and in \<open>CallHandler\<close>
  (state \<open>h\<close>).
\<close>

theorem C10_reject_end_unchecked:
  "on_call_reject socket cid target reason s
     = ([(ToRoom target,
          call_rejected cid (reason_or reason ''Call rejected'') (data_userId socket))],
        s\<lparr>activeCalls := AList.delete cid (activeCalls s)\<rparr>)
   \<and> map_of (activeCalls (snd (on_call_reject socket cid target reason s))) cid = None
   \<and> fst (on_call_end socket cid target s)
       = [(ToRoom target,
           call_ended cid (data_userId socket) None
             (Some (case map_of (activeCalls s) cid of
                      None \<Rightarrow> 0 | Some c \<Rightarrow> getCallDuration s (timestamp c))))]
   \<and> snd (on_call_end socket cid target s) = s\<lparr>activeCalls := AList.delete cid (activeCalls s)\<rparr>
   \<and> map_of (activeCalls (snd (on_call_end socket cid target s))) cid = None
   \<and> fst (handleCallReject socket cid target reason h)
       = [(ToRoom target,
           call_rejected cid (reason_or reason ''Call rejected'') (data_userId socket))]
   \<and> activeCalls (snd (handleCallReject socket cid target reason h))
       = AList.delete cid (activeCalls h)
   \<and> fst (handleCallEnd socket cid target h)
       = [(ToRoom target,
           call_ended cid (data_userId socket) None
             (Some (case map_of (activeCalls h) cid of
                      None \<Rightarrow> 0 | Some c \<Rightarrow> getCallDuration h (timestamp c))))]
   \<and> activeCalls (snd (handleCallEnd socket cid target h))
       = AList.delete cid (activeCalls h)"
  by (simp add: on_call_reject_def on_call_end_def handleCallReject_def handleCallEnd_def
      map_of_delete_same Let_def)

text \<open>
  \<open>u3\<close>, no party of the call \<open>c1\<close> from \<open>u1\<close> to \<open>u2\<close>, rejects or ends it and names
  \<open>u9\<close> as the user to notify.
\<close>

theorem C10_reject_end_unchecked_witness:
  "map_of (activeCalls server_ringing) ''c1'' = Some (call_of ''c1'' ''u1'' ''u2'')
   \<and> on_call_reject (sock ''u3'' ''s3'') ''c1'' ''u9'' None server_ringing
       = ([(ToRoom ''u9'', call_rejected ''c1'' ''Call rejected'' ''u3'')],
          server_ringing\<lparr>activeCalls := []\<rparr>)
   \<and> on_call_end (sock ''u3'' ''s3'') ''c1'' ''u9'' server_ringing
       = ([(ToRoom ''u9'', call_ended ''c1'' ''u3'' None (Some 0))],
          server_ringing\<lparr>activeCalls := []\<rparr>)
   \<and> fst (handleCallReject (sock ''u3'' ''s3'') ''c1'' ''u9'' None handler_ringing)
       = [(ToRoom ''u9'', call_rejected ''c1'' ''Call rejected'' ''u3'')]
   \<and> activeCalls (snd (handleCallReject (sock ''u3'' ''s3'') ''c1'' ''u9'' None handler_ringing)) = []
   \<and> fst (handleCallEnd (sock ''u3'' ''s3'') ''c1'' ''u9'' handler_ringing)
       = [(ToRoom ''u9'', call_ended ''c1'' ''u3'' None (Some 0))]
   \<and> activeCalls (snd (handleCallEnd (sock ''u3'' ''s3'') ''c1'' ''u9'' handler_ringing)) = []"
  using C10_reject_end_unchecked [of "sock ''u3'' ''s3''" "''c1''" "''u9''" None server_ringing
      handler_ringing]
  by (simp add: server_ringing_eq handler_ringing_eq sock_def reason_or_def getCallDuration_def
      call_of_def prod_eq_iff)

section \<open>C2: a disconnect removes the registration whatever handle it holds\<close>

lemma end_calls_of_connectedUsers [simp]:
  "connectedUsers (snd (end_calls_of uid xs s)) = connectedUsers s"
  by (induction xs arbitrary: s) (auto simp: Let_def)

lemma end_calls_of_p1_connectedUsers [simp]:
  "connectedUsers (snd (end_calls_of_p1 uid xs s)) = connectedUsers s"
  by (induction xs arbitrary: s) (auto simp: Let_def)

text \<open>
  C2 as claimed: the registration of \<open>u\<close> is removed only if the stored handle is the
  handle of the disconnecting connection. It fails: \<open>u1\<close> is on the connections \<open>s1\<close>
  and \<open>s1b\<close>, the registration holds \<open>s1b\<close>, and the disconnect of \<open>s1\<close> removes it
  (in \<open>socket.chat.ts\<close> and in \<open>part_001\<close>).
\<close>

theorem C2_stale_disconnect_counterexample:
  "map_option socketId (map_of (connectedUsers (server_reconnected :: CallData server)) ''u1'')
     = Some ''s1b''
   \<and> socket_id (sock ''u1'' ''s1'') \<noteq> ''s1b''
   \<and> map_of (connectedUsers (snd (on_disconnect (sock ''u1'' ''s1'') server_reconnected))) ''u1''
       = None
   \<and> map_of (connectedUsers (snd (on_disconnect_p1 (sock ''u1'' ''s1'') server_reconnected))) ''u1''
       = None"
  by (simp add: server_reconnected_eq on_disconnect_def on_disconnect_p1_def sock_def Let_def)

text \<open>
  C2, amended. The disconnect handler never reads the stored \<open>socketId\<close>: the disconnect
  of any connection of user \<open>u\<close> deletes the registration of \<open>u\<close> and leaves every
  other registration as it was.
\<close>

theorem C2_disconnect_removes_registration:
  "connectedUsers (snd (on_disconnect socket s))
     = AList.delete (data_userId socket) (connectedUsers s)
   \<and> map_of (connectedUsers (snd (on_disconnect socket s))) (data_userId socket) = None
   \<and> connectedUsers (snd (on_disconnect_p1 socket sN))
     = AList.delete (data_userId socket) (connectedUsers sN)
   \<and> map_of (connectedUsers (snd (on_disconnect_p1 socket sN))) (data_userId socket) = None"
  by (simp add: on_disconnect_def on_disconnect_p1_def Let_def map_of_delete_same)

theorem C2_disconnect_removes_registration_witness:
  "connectedUsers (snd (on_disconnect (sock ''u1'' ''s1'') server_reconnected))
     = [(''u2'', \<lparr>userId = ''u2'', socketId = ''s2'', userConversations = []\<rparr>),
        (''u3'', \<lparr>userId = ''u3'', socketId = ''s3'', userConversations = []\<rparr>)]
   \<and> connectedUsers (snd (on_disconnect_p1 (sock ''u1'' ''s1'') server_reconnected))
     = [(''u2'', \<lparr>userId = ''u2'', socketId = ''s2'', userConversations = []\<rparr>),
        (''u3'', \<lparr>userId = ''u3'', socketId = ''s3'', userConversations = []\<rparr>)]"
  using C2_disconnect_removes_registration [of "sock ''u1'' ''s1''" server_reconnected
      server_reconnected]
  by (simp add: server_reconnected_eq sock_def)

section \<open>C3: only the callee's accept is accepted\<close>

text \<open>
  C3. An accept emits \<open>call:accepted\<close> (and, in \<open>CallHandler\<close>, changes the state: the
  status becomes \<open>accepted\<close>) only if the call exists and the user of the accepting
  connection is the stored \<open>recipientId\<close>. When another user accepts an existing call,
  the accepting connection gets \<open>call:error\<close> and the state is unchanged; so it is when
  the call does not exist. In \<open>socket.chat.ts\<close> (state \<open>s\<close>) and \<open>CallHandler\<close>
  (state \<open>h\<close>).
\<close>

theorem C3_accept_only_by_callee:
  "((tgt, call_accepted cid' a n) \<in> set (fst (on_call_accept socket cid caller s)) \<longrightarrow>
      (\<exists>c. map_of (activeCalls s) cid = Some c \<and> recipientId c = data_userId socket))
   \<and> (\<forall>c. map_of (activeCalls s) cid = Some c \<and> recipientId c \<noteq> data_userId socket \<longrightarrow>
      on_call_accept socket cid caller s
        = ([(ToSocket (socket_id socket), call_error cid ''Not authorized to accept this call'')],
           s))
   \<and> (map_of (activeCalls s) cid = None \<longrightarrow>
      on_call_accept socket cid caller s
        = ([(ToSocket (socket_id socket), call_error cid ''Call not found'')], s))
   \<and> ((tgt, call_accepted cid' a n) \<in> set (fst (handleCallAccept socket cid caller h))
        \<or> snd (handleCallAccept socket cid caller h) \<noteq> h \<longrightarrow>
      (\<exists>c. map_of (activeCalls h) cid = Some c \<and> recipientId c = data_userId socket))
   \<and> (\<forall>c. map_of (activeCalls h) cid = Some c \<and> recipientId c \<noteq> data_userId socket \<longrightarrow>
      handleCallAccept socket cid caller h
        = ([(ToSocket (socket_id socket), call_error cid ''Not authorized to accept this call'')],
           h))
   \<and> (map_of (activeCalls h) cid = None \<longrightarrow>
      handleCallAccept socket cid caller h
        = ([(ToSocket (socket_id socket), call_error cid ''Call not found'')], h))
   \<and> (\<forall>c. map_of (activeCalls h) cid = Some c \<and> recipientId c = data_userId socket \<longrightarrow>
      fst (handleCallAccept socket cid caller h)
        = [(ToRoom caller, call_accepted cid (data_userId socket) None)]
      \<and> activeCalls (snd (handleCallAccept socket cid caller h))
        = AList.update cid (c\<lparr>status := accepted\<rparr>) (activeCalls h))"
  by (auto simp: on_call_accept_def handleCallAccept_def split: option.splits if_splits)

theorem C3_accept_only_by_callee_witness:
  "map_of (activeCalls server_ringing) ''c1'' = Some (call_of ''c1'' ''u1'' ''u2'')
   \<and> on_call_accept (sock ''u3'' ''s3'') ''c1'' ''u1'' server_ringing
       = ([(ToSocket ''s3'', call_error ''c1'' ''Not authorized to accept this call'')],
          server_ringing)
   \<and> on_call_accept (sock ''u2'' ''s2'') ''c7'' ''u1'' server_ringing
       = ([(ToSocket ''s2'', call_error ''c7'' ''Call not found'')], server_ringing)
   \<and> handleCallAccept (sock ''u3'' ''s3'') ''c1'' ''u1'' handler_ringing
       = ([(ToSocket ''s3'', call_error ''c1'' ''Not authorized to accept this call'')],
          handler_ringing)
   \<and> fst (handleCallAccept (sock ''u2'' ''s2'') ''c1'' ''u1'' handler_ringing)
       = [(ToRoom ''u1'', call_accepted ''c1'' ''u2'' None)]
   \<and> map_option status
        (map_of (activeCalls (snd (handleCallAccept (sock ''u2'' ''s2'') ''c1'' ''u1'' handler_ringing)))
           ''c1'') = Some accepted"
  using C3_accept_only_by_callee [of _ _ _ _ "sock ''u3'' ''s3''" "''c1''" "''u1''" server_ringing handler_ringing]
    C3_accept_only_by_callee [of _ _ _ _ "sock ''u2'' ''s2''" "''c1''" "''u1''" server_ringing handler_ringing]
    C3_accept_only_by_callee [of _ _ _ _ "sock ''u2'' ''s2''" "''c7''" "''u1''" server_ringing handler_ringing]
  by (simp add: server_ringing_eq handler_ringing_eq sock_def call_of_def)

section \<open>C5: an offline callee blocks the call\<close>

lemma on_call_initiate_offline:
  "callerId d = data_userId socket \<Longrightarrow> map_of (connectedUsers s) (recipientId d) = None \<Longrightarrow>
   on_call_initiate socket d s
     = ([(ToSocket (socket_id socket), call_failed (callId d) ''Recipient is offline'')], s)"
  by (simp add: on_call_initiate_def)

lemma on_call_initiate_p1_offline:
  "callerId d = data_userId socket \<Longrightarrow> map_of (connectedUsers s) (recipientId d) = None \<Longrightarrow>
   on_call_initiate_p1 socket d s
     = ([(ToSocket (socket_id socket), call_failed (callId d) ''Recipient is offline'')], s)"
  by (simp add: on_call_initiate_p1_def)

text \<open>
  C5 as claimed: with the callee offline the failure is reported and a call record is
  created all the same. It fails: \<open>u7\<close> is not connected, and after \<open>u1\<close>'s
  \<open>call:initiate\<close> no record \<open>c1\<close> exists (in \<open>socket.chat.ts\<close> and in \<open>part_001\<close>).
\<close>

theorem C5_offline_callee_counterexample:
  "map_of (connectedUsers server_online) ''u7'' = None
   \<and> \<not> (map_of (activeCalls (snd (on_call_initiate (sock ''u1'' ''s1'')
                                     (call_of ''c1'' ''u1'' ''u7'') server_online))) ''c1'' \<noteq> None)
   \<and> \<not> (map_of (activeCalls (snd (on_call_initiate_p1 (sock ''u1'' ''s1'')
                                     (call_of_p1 ''c1'' ''u1'' ''u7'') server_online))) ''c1'' \<noteq> None)"
  by (simp add: server_online_eq on_call_initiate_def on_call_initiate_p1_def sock_def call_of_def
      call_of_p1_def)

text \<open>
  C5, amended. When the authenticated caller initiates a call to a callee who is not
  connected, the caller's connection gets \<open>call:failed\<close> with the reason
  \<open>Recipient is offline\<close>, and the handler returns before it stores anything: the state
  is unchanged and no record is created.
\<close>

theorem C5_offline_callee_blocks_call:
  "(callerId d = data_userId socket \<and> map_of (connectedUsers s) (recipientId d) = None \<longrightarrow>
      on_call_initiate socket d s
        = ([(ToSocket (socket_id socket), call_failed (callId d) ''Recipient is offline'')], s))
   \<and> (callerId dN = data_userId socket \<and> map_of (connectedUsers sN) (recipientId dN) = None \<longrightarrow>
      on_call_initiate_p1 socket dN sN
        = ([(ToSocket (socket_id socket), call_failed (callId dN) ''Recipient is offline'')], sN))"
  by (simp add: on_call_initiate_offline on_call_initiate_p1_offline)

theorem C5_offline_callee_blocks_call_witness:
  "callerId (call_of ''c1'' ''u1'' ''u7'') = data_userId (sock ''u1'' ''s1'')
   \<and> map_of (connectedUsers (server_online :: CallData server)) ''u7'' = None
   \<and> on_call_initiate (sock ''u1'' ''s1'') (call_of ''c1'' ''u1'' ''u7'') server_online
       = ([(ToSocket ''s1'', call_failed ''c1'' ''Recipient is offline'')], server_online)
   \<and> on_call_initiate_p1 (sock ''u1'' ''s1'') (call_of_p1 ''c1'' ''u1'' ''u7'') server_online
       = ([(ToSocket ''s1'', call_failed ''c1'' ''Recipient is offline'')], server_online)"
  using C5_offline_callee_blocks_call [of "call_of ''c1'' ''u1'' ''u7''" "sock ''u1'' ''s1''"
      server_online "call_of_p1 ''c1'' ''u1'' ''u7''" server_online]
  by (simp add: server_online_eq sock_def call_of_def call_of_p1_def)

section \<open>C6: a failed initiate changes nothing\<close>

text \<open>
  C6. When \<open>call:initiate\<close> of \<open>socket.chat.ts\<close> fails (the claimed caller is not the
  user of the connection, or the callee is not connected, or some active call already
  has the callee as recipient), the whole state is as before and the only emission is one
  \<open>call:failed\<close> to the initiating connection: nothing is sent to the callee.
\<close>

theorem C6_failed_initiate_changes_nothing:
  assumes "callerId d \<noteq> data_userId socket
         \<or> map_of (connectedUsers s) (recipientId d) = None
         \<or> (\<exists>call \<in> set (map snd (activeCalls s)). recipientId call = recipientId d)"
  shows "\<exists>reason \<in> {''Authentication error'', ''Recipient is offline'',
                       ''Recipient is already in a call''}.
           on_call_initiate socket d s
             = ([(ToSocket (socket_id socket), call_failed (callId d) reason)], s)"
proof (cases "callerId d \<noteq> data_userId socket")
  case True
  then show ?thesis by (simp add: on_call_initiate_def)
next
  case auth: False
  show ?thesis
  proof (cases "map_of (connectedUsers s) (recipientId d)")
    case None
    with auth show ?thesis by (simp add: on_call_initiate_def)
  next
    case (Some recipientSocket)
    with auth assms
    have "find (\<lambda>call. recipientId call = recipientId d) (map snd (activeCalls s)) \<noteq> None"
      by (auto simp: find_None_iff)
    then obtain existingCall
      where "find (\<lambda>call. recipientId call = recipientId d) (map snd (activeCalls s))
               = Some existingCall"
      by auto
    with auth Some show ?thesis by (simp add: on_call_initiate_def)
  qed
qed

theorem C6_failed_initiate_changes_nothing_witness:
  "(\<exists>call \<in> set (map snd (activeCalls server_ringing)). recipientId call = ''u2'')
   \<and> on_call_initiate (sock ''u3'' ''s3'') (call_of ''c2'' ''u3'' ''u2'') server_ringing
       = ([(ToSocket ''s3'', call_failed ''c2'' ''Recipient is already in a call'')],
          server_ringing)"
proof -
  have h: "\<exists>call \<in> set (map snd (activeCalls server_ringing)). recipientId call = ''u2''"
    by (simp add: server_ringing_eq call_of_def)
  then have "callerId (call_of ''c2'' ''u3'' ''u2'') \<noteq> data_userId (sock ''u3'' ''s3'')
         \<or> map_of (connectedUsers server_ringing) (recipientId (call_of ''c2'' ''u3'' ''u2'')) = None
         \<or> (\<exists>call \<in> set (map snd (activeCalls server_ringing)).
               recipientId call = recipientId (call_of ''c2'' ''u3'' ''u2''))"
    by (simp add: call_of_def)
  from C6_failed_initiate_changes_nothing [OF this] h
  show ?thesis
    by (auto simp: call_of_def sock_def server_ringing_eq on_call_initiate_def)
qed

section \<open>C8: relays for an unknown call\<close>

text \<open>
  C8. When the \<open>callId\<close> is not in \<open>activeCalls\<close>: the ICE-candidate relay emits
  nothing and changes nothing; the offer relay and the answer relay emit
  \<open>webrtc:error\<close> to the sender's connection; none of the three forwards the payload.
\<close>

theorem C8_unknown_call_relay:
  assumes "map_of (activeCalls s) cid = None"
  shows "on_webrtc_ice_candidate socket cid recipient candidate s = ([], s)
       \<and> on_webrtc_offer socket cid recipient offer s
           = ([(ToSocket (socket_id socket), webrtc_error cid ''Call not found'')], s)
       \<and> on_webrtc_answer socket cid recipient answer s
           = ([(ToSocket (socket_id socket), webrtc_error cid ''Call not found'')], s)"
  using assms
  by (simp add: on_webrtc_ice_candidate_def on_webrtc_offer_def on_webrtc_answer_def)

theorem C8_unknown_call_relay_witness:
  "map_of (activeCalls server_ringing) ''c9'' = None
   \<and> on_webrtc_ice_candidate (sock ''u1'' ''s1'') ''c9'' ''u2'' ''cand'' server_ringing
        = ([], server_ringing)
   \<and> on_webrtc_offer (sock ''u1'' ''s1'') ''c9'' ''u2'' ''sdp'' server_ringing
        = ([(ToSocket ''s1'', webrtc_error ''c9'' ''Call not found'')], server_ringing)
   \<and> on_webrtc_answer (sock ''u1'' ''s1'') ''c9'' ''u2'' ''sdp'' server_ringing
        = ([(ToSocket ''s1'', webrtc_error ''c9'' ''Call not found'')], server_ringing)"
proof -
  have h: "map_of (activeCalls server_ringing) ''c9'' = None"
    by (simp add: server_ringing_eq)
  show ?thesis
    using h C8_unknown_call_relay [OF h, of "sock ''u1'' ''s1''" "''u2''" "''cand''" "''sdp''" "''sdp''"]
    by (simp add: sock_def)
qed

section \<open>C9: reject and end of an unknown call\<close>

text \<open>
  C9 as claimed: a reject or an end of a call that does not exist is a no-op. It is
  not: \<open>c9\<close> is not in \<open>activeCalls\<close>, yet the reject sends \<open>call:rejected\<close> and
  the end sends \<open>call:ended\<close> to \<open>u1\<close>, the user the payload names, and a reject
  repeated sends the notification again.
\<close>

theorem C9_unknown_call_counterexample:
  "map_of (activeCalls server_ringing) ''c9'' = None
   \<and> \<not> (on_call_reject (sock ''u2'' ''s2'') ''c9'' ''u1'' None server_ringing
          = ([], server_ringing))
   \<and> \<not> (on_call_end (sock ''u2'' ''s2'') ''c9'' ''u1'' server_ringing = ([], server_ringing))
   \<and> fst (on_call_reject (sock ''u2'' ''s2'') ''c9'' ''u1'' None server_ringing)
       = [(ToRoom ''u1'', call_rejected ''c9'' ''Call rejected'' ''u2'')]
   \<and> fst (on_call_end (sock ''u2'' ''s2'') ''c9'' ''u1'' server_ringing)
       = [(ToRoom ''u1'', call_ended ''c9'' ''u2'' None (Some 0))]
   \<and> fst (on_call_reject (sock ''u2'' ''s2'') ''c9'' ''u1'' None
            (snd (on_call_reject (sock ''u2'' ''s2'') ''c9'' ''u1'' None server_ringing)))
       = [(ToRoom ''u1'', call_rejected ''c9'' ''Call rejected'' ''u2'')]"
  by (simp add: on_call_reject_def on_call_end_def sock_def reason_or_def server_ringing_eq)

text \<open>
  C9, amended. A \<open>call:reject\<close> or \<open>call:end\<close> whose \<open>callId\<close> is not in
  \<open>activeCalls\<close> leaves the state as it was, so that repeating it leaves the state as
  it was again; but it is answered like any other: \<open>call:rejected\<close>, or \<open>call:ended\<close>
  with the duration 0, goes to the user the payload names, each time the event arrives.
\<close>


theorem C9_reject_end_unknown:
  assumes "map_of (activeCalls s) cid = None"
  shows "on_call_reject socket cid caller reason s
           = ([(ToRoom caller,
                call_rejected cid (reason_or reason ''Call rejected'') (data_userId socket))], s)
       \<and> on_call_end socket cid recipient s
           = ([(ToRoom recipient, call_ended cid (data_userId socket) None (Some 0))], s)
       \<and> on_call_reject socket cid caller reason (snd (on_call_reject socket cid caller reason s))
           = on_call_reject socket cid caller reason s
       \<and> on_call_end socket cid recipient (snd (on_call_end socket cid recipient s))
           = on_call_end socket cid recipient s"
  using assms
  by (simp add: on_call_reject_def on_call_end_def delete_absent)

theorem C9_reject_end_unknown_witness:
  "map_of (activeCalls server_ringing) ''c9'' = None
   \<and> on_call_reject (sock ''u2'' ''s2'') ''c9'' ''u1'' (Some ''busy'') server_ringing
        = ([(ToRoom ''u1'', call_rejected ''c9'' ''busy'' ''u2'')], server_ringing)
   \<and> on_call_end (sock ''u2'' ''s2'') ''c9'' ''u1'' server_ringing
        = ([(ToRoom ''u1'', call_ended ''c9'' ''u2'' None (Some 0))], server_ringing)"
proof -
  have h: "map_of (activeCalls server_ringing) ''c9'' = None"
    by (simp add: server_ringing_eq)
  show ?thesis
    using h C9_reject_end_unknown [OF h, of "sock ''u2'' ''s2''" "''u1''" "Some ''busy''" "''u1''"]
    by (simp add: sock_def reason_or_def)
qed

section \<open>The disconnect loop, and invariants of the reachable states\<close>

lemma delete_is_filter: "AList.delete k xs = filter (\<lambda>p. fst p \<noteq> k) xs"
  by (induction xs) auto


lemma end_calls_of_snd:
  "snd (end_calls_of uid xs s)
     = s\<lparr>activeCalls :=
           filter (\<lambda>p. fst p \<notin> fst ` {q \<in> set xs. callerId (snd q) = uid \<or> recipientId (snd q) = uid})
             (activeCalls s)\<rparr>"
proof (induction xs arbitrary: s)
  case Nil
  then show ?case by simp
next
  case (Cons x xs)
  obtain cid c where x: "x = (cid, c)" by (cases x)
  show ?case
  proof (cases "callerId c = uid \<or> recipientId c = uid")
    case True
    have "{q \<in> set (x # xs). callerId (snd q) = uid \<or> recipientId (snd q) = uid}
            = insert x {q \<in> set xs. callerId (snd q) = uid \<or> recipientId (snd q) = uid}"
      using True x by auto
    then show ?thesis
      using True x Cons.IH
      by (auto simp: Let_def delete_is_filter intro!: filter_cong)
  next
    case False
    have "{q \<in> set (x # xs). callerId (snd q) = uid \<or> recipientId (snd q) = uid}
            = {q \<in> set xs. callerId (snd q) = uid \<or> recipientId (snd q) = uid}"
      using False x by auto
    then show ?thesis
      using False x Cons.IH by simp
  qed
qed




text \<open>What is left of a map when the entries of a user are deleted by key.\<close>

lemma no_call_of_user_left:
  "p \<in> set (filter (\<lambda>p. fst p \<notin> fst ` {q \<in> set xs. P (snd q)}) xs) \<Longrightarrow> \<not> P (snd p)"
  by auto



lemma run_no_callback [simp]: "run_callbacks no_callback ts s = ([], s)"
  by (induction ts arbitrary: s) (auto simp: no_callback_def Let_def)

lemma set_update_subset: "set (AList.update k v xs) \<subseteq> insert (k, v) (set xs)"
  by (induction xs) auto

lemma set_delete_subset: "set (AList.delete k xs) \<subseteq> set xs"
  by (induction xs) auto

lemma end_calls_of_activeCalls:
  "activeCalls (snd (end_calls_of uid xs s))
     = filter (\<lambda>p. fst p \<notin> fst ` {q \<in> set xs. callerId (snd q) = uid \<or> recipientId (snd q) = uid})
         (activeCalls s)"
  by (simp add: end_calls_of_snd)

lemma call_keys_distinct_step:
  assumes "distinct (map fst (activeCalls s))"
  shows "distinct (map fst (activeCalls (snd (dispatch e s))))"
proof (cases e)
  case (Call_initiate socket d)
  with assms show ?thesis
    by (auto simp: on_call_initiate_def Let_def distinct_update split: option.splits)
next
  case (Disconnect socket)
  with assms show ?thesis
    by (simp add: on_disconnect_def Let_def end_calls_of_activeCalls distinct_map_filter)
next
  case (Join_conversation socket other)
  with assms show ?thesis
    by (auto simp: on_join_conversation_def Let_def split: option.splits)
next
  case (Leave_conversation socket other)
  with assms show ?thesis
    by (auto simp: on_leave_conversation_def Let_def split: option.splits)
next
  case (Send_message socket r m mt)
  with assms show ?thesis
    by (auto simp: on_send_message_def Let_def split: option.splits)
qed (use assms in \<open>auto simp: handleConnection_def on_typing_def on_call_accept_def
      on_call_reject_def on_call_end_def on_call_timeout_def on_webrtc_offer_def
      on_webrtc_answer_def on_webrtc_ice_candidate_def idle_until_def Let_def distinct_delete
      split: option.splits\<close>)


lemma reachable_call_keys_distinct: "reachable s \<Longrightarrow> distinct (map fst (activeCalls s))"
  by (induction rule: reachable.induct) (simp_all add: server0_def call_keys_distinct_step)



lemma reachable_run: "reachable s \<Longrightarrow> reachable (run es s)"
  by (induction es arbitrary: s) (auto intro: reachable.event)










section \<open>C7: a disconnect ends the user's calls and leaves the listed rooms\<close>




section \<open>C4: the ring timeout\<close>

lemma is_timeout_of_simps [simp]:
  "is_timeout_of cid (tgt, call_timeout c r) = (c = cid)"
  by (simp add: is_timeout_of_def)

lemma timeout_callback_p1_absent:
  "map_of (activeCalls s) cid = None \<Longrightarrow> timeout_callback_p1 cid s = ([], s)"
  by (simp add: timeout_callback_p1_def)

lemma timeout_callback_p1_other:
  "k \<noteq> cid \<Longrightarrow>
   filter (is_timeout_of cid) (fst (timeout_callback_p1 k s)) = []
   \<and> map_of (activeCalls (snd (timeout_callback_p1 k s))) cid = map_of (activeCalls s) cid"
  by (auto simp: timeout_callback_p1_def delete_conv split: option.splits)

lemma timeout_callback_p1_timers [simp]:
  "timers (snd (timeout_callback_p1 k s)) = timers s"
  by (simp add: timeout_callback_p1_def split: option.splits)

lemma run_callbacks_p1_timers [simp]:
  "timers (snd (run_callbacks timeout_callback_p1 ts s)) = timers s"
  by (induction ts arbitrary: s) (simp_all add: Let_def)

lemma run_callbacks_p1_absent:
  "map_of (activeCalls s) cid = None \<Longrightarrow>
   filter (is_timeout_of cid) (fst (run_callbacks timeout_callback_p1 ts s)) = []
   \<and> map_of (activeCalls (snd (run_callbacks timeout_callback_p1 ts s))) cid = None"
proof (induction ts arbitrary: s)
  case Nil
  then show ?case by simp
next
  case (Cons t ts)
  show ?case
  proof (cases "forCall t = cid")
    case True
    with Cons.prems have "timeout_callback_p1 (forCall t) s = ([], s)"
      by (simp add: timeout_callback_p1_absent)
    with Cons.IH [OF Cons.prems] show ?thesis by (simp add: Let_def)
  next
    case False
    from timeout_callback_p1_other [OF False, of s] Cons.prems
    have f: "filter (is_timeout_of cid) (fst (timeout_callback_p1 (forCall t) s)) = []"
      and a: "map_of (activeCalls (snd (timeout_callback_p1 (forCall t) s))) cid = None"
      by simp_all
    from Cons.IH [OF a] f show ?thesis by (simp add: Let_def)
  qed
qed

lemma run_callbacks_p1_present:
  "map_of (activeCalls s) cid = Some c \<Longrightarrow> \<exists>t \<in> set ts. forCall t = cid \<Longrightarrow>
   filter (is_timeout_of cid) (fst (run_callbacks timeout_callback_p1 ts s))
     = [(ToRoom (callerId c), call_timeout cid (Some ''No answer from recipient'')),
        (ToRoom (recipientId c), call_timeout cid (Some ''Call timed out''))]
   \<and> map_of (activeCalls (snd (run_callbacks timeout_callback_p1 ts s))) cid = None"
proof (induction ts arbitrary: s)
  case Nil
  then show ?case by simp
next
  case (Cons t ts)
  show ?case
  proof (cases "forCall t = cid")
    case True
    let ?s' = "snd (timeout_callback_p1 (forCall t) s)"
    from True Cons.prems(1)
    have out: "fst (timeout_callback_p1 (forCall t) s)
                 = [(ToRoom (callerId c), call_timeout cid (Some ''No answer from recipient'')),
                    (ToRoom (recipientId c), call_timeout cid (Some ''Call timed out''))]"
      and gone: "map_of (activeCalls ?s') cid = None"
      by (simp_all add: timeout_callback_p1_def map_of_delete_same)
    from run_callbacks_p1_absent [OF gone, of ts] out show ?thesis
      by (simp add: Let_def)
  next
    case False
    let ?s' = "snd (timeout_callback_p1 (forCall t) s)"
    from timeout_callback_p1_other [OF False, of s] Cons.prems(1)
    have f: "filter (is_timeout_of cid) (fst (timeout_callback_p1 (forCall t) s)) = []"
      and a: "map_of (activeCalls ?s') cid = Some c"
      by simp_all
    from False Cons.prems(2) have "\<exists>t \<in> set ts. forCall t = cid" by auto
    from Cons.IH [OF a this] f show ?thesis by (simp add: Let_def)
  qed
qed

lemma end_calls_of_timers [simp]: "timers (snd (end_calls_of uid xs s)) = timers s"
  by (simp add: end_calls_of_snd)

lemma no_timers_step: "timers s = [] \<Longrightarrow> timers (snd (dispatch e s)) = []"
  by (cases e)
     (auto simp: handleConnection_def on_join_conversation_def on_leave_conversation_def
        on_send_message_def on_typing_def on_call_initiate_def on_call_accept_def
        on_call_reject_def on_call_end_def on_call_timeout_def on_webrtc_offer_def
        on_webrtc_answer_def on_webrtc_ice_candidate_def on_disconnect_def idle_until_def
        Let_def split: option.splits)

lemma reachable_no_timers: "reachable s \<Longrightarrow> timers s = []"
  by (induction rule: reachable.induct) (simp_all add: server0_def no_timers_step)

lemma idle_without_timers:
  "timers s = [] \<Longrightarrow> idle_until cb t s = ([], s\<lparr>now := max (now s) t\<rparr>)"
  by (simp add: idle_until_def)

text \<open>The timer of a ringing call of \<open>part_001\<close> under the events that leave the call alone.\<close>

lemma clearCallTimeout_nextTimer [simp]: "nextTimer (clearCallTimeout k s) = nextTimer s"
  by (simp add: clearCallTimeout_def clearTimeout_def split: option.splits)

lemma clearCallTimeout_callTimeouts: "callTimeouts (clearCallTimeout k s) = AList.delete k (callTimeouts s)"
  by (simp add: clearCallTimeout_def clearTimeout_def delete_absent split: option.splits)

lemma clearCallTimeout_keeps_timer:
  assumes "x \<in> set (timers s)"
    and "\<forall>p \<in> set (callTimeouts s). fst p = k \<longrightarrow> snd p \<noteq> handle x"
  shows "x \<in> set (timers (clearCallTimeout k s))"
proof (cases "map_of (callTimeouts s) k")
  case None
  with assms(1) show ?thesis by (simp add: clearCallTimeout_def)
next
  case (Some h')
  then have "(k, h') \<in> set (callTimeouts s)" by (rule map_of_SomeD)
  with assms(2) have "h' \<noteq> handle x" by auto
  with assms(1) Some show ?thesis
    by (auto simp: clearCallTimeout_def clearTimeout_def)
qed

lemma timeout_callback_p1_frame:
  "nextTimer (snd (timeout_callback_p1 k s)) = nextTimer s
   \<and> now (snd (timeout_callback_p1 k s)) = now s
   \<and> set (callTimeouts (snd (timeout_callback_p1 k s))) \<subseteq> set (callTimeouts s)
   \<and> (distinct (map fst (activeCalls s)) \<longrightarrow>
        distinct (map fst (activeCalls (snd (timeout_callback_p1 k s)))))"
  using set_delete_subset [of k "callTimeouts s"]
  by (auto simp: timeout_callback_p1_def distinct_delete split: option.splits)

lemma run_callbacks_p1_frame:
  "nextTimer (snd (run_callbacks timeout_callback_p1 ts s)) = nextTimer s
   \<and> now (snd (run_callbacks timeout_callback_p1 ts s)) = now s
   \<and> set (callTimeouts (snd (run_callbacks timeout_callback_p1 ts s))) \<subseteq> set (callTimeouts s)
   \<and> (distinct (map fst (activeCalls s)) \<longrightarrow>
        distinct (map fst (activeCalls (snd (run_callbacks timeout_callback_p1 ts s)))))"
proof (induction ts arbitrary: s)
  case Nil
  then show ?case by simp
next
  case (Cons t ts)
  from Cons.IH [of "snd (timeout_callback_p1 (forCall t) s)"]
    timeout_callback_p1_frame [of "forCall t" s]
  show ?case by (auto simp: Let_def)
qed

lemma run_callbacks_p1_other:
  "\<forall>x \<in> set ts. forCall x \<noteq> cid \<Longrightarrow>
   map_of (activeCalls (snd (run_callbacks timeout_callback_p1 ts s))) cid
     = map_of (activeCalls s) cid
   \<and> filter (is_timeout_of cid) (fst (run_callbacks timeout_callback_p1 ts s)) = []"
proof (induction ts arbitrary: s)
  case Nil
  then show ?case by simp
next
  case (Cons t ts)
  then have ne: "forCall t \<noteq> cid" and rest: "\<forall>x \<in> set ts. forCall x \<noteq> cid" by simp_all
  from timeout_callback_p1_other [OF ne, of s] Cons.IH [OF rest, of "snd (timeout_callback_p1 (forCall t) s)"]
  show ?case by (simp add: Let_def)
qed

lemma idle_keeps_ringing:
  assumes "still_ringing cid cd h D s"
  shows "(still_ringing cid cd h D (snd (idle_until timeout_callback_p1 t s))
            \<and> filter (is_timeout_of cid) (fst (idle_until timeout_callback_p1 t s)) = [])
       \<or> (map_of (activeCalls (snd (idle_until timeout_callback_p1 t s))) cid = None
            \<and> filter (is_timeout_of cid) (fst (idle_until timeout_callback_p1 t s))
                = timeout_pair cid cd)"
proof -
  define ts where "ts = sort_key due (filter (\<lambda>x. due x \<le> t) (timers s))"
  define s0 where
    "s0 = s\<lparr>now := max (now s) t, timers := filter (\<lambda>x. \<not> due x \<le> t) (timers s)\<rparr>"
  have idle: "idle_until timeout_callback_p1 t s = run_callbacks timeout_callback_p1 ts s0"
    by (simp add: idle_until_def ts_def s0_def)
  from assms have rec: "map_of (activeCalls s0) cid = Some cd"
    by (simp add: still_ringing_def s0_def)
  show ?thesis
  proof (cases "\<exists>x \<in> set ts. forCall x = cid")
    case True
    from run_callbacks_p1_present [OF rec True] show ?thesis
      by (simp add: idle timeout_pair_def)
  next
    case False
    then have none: "\<forall>x \<in> set ts. forCall x \<noteq> cid" by simp
    let ?x = "\<lparr>handle = h, due = D, forCall = cid\<rparr>"
    from assms have pending: "?x \<in> set (timers s)" by (simp add: still_ringing_def)
    have "?x \<notin> set ts" using none by auto
    with pending have later: "t < D" by (auto simp: ts_def)
    with pending have queued: "?x \<in> set (timers s0)" by (simp add: s0_def)
    note frame = run_callbacks_p1_frame [of ts s0]
    note other = run_callbacks_p1_other [OF none, of s0]
    have "still_ringing cid cd h D (snd (run_callbacks timeout_callback_p1 ts s0))"
      unfolding still_ringing_def
      using assms frame other rec queued later
      by (auto simp: still_ringing_def s0_def)
    with other show ?thesis by (simp add: idle)
  qed
qed

lemma end_calls_of_p1_no_timeout:
  "filter (is_timeout_of cid) (fst (end_calls_of_p1 uid xs s)) = []"
  by (induction xs arbitrary: s) (auto simp: Let_def is_timeout_of_def)

lemma end_calls_of_p1_activeCalls:
  "activeCalls (snd (end_calls_of_p1 uid xs s))
     = filter (\<lambda>p. fst p \<notin> fst ` {q \<in> set xs. callerId (snd q) = uid \<or> recipientId (snd q) = uid})
         (activeCalls s)"
proof (induction xs arbitrary: s)
  case Nil
  then show ?case by simp
next
  case (Cons x xs)
  obtain k c where x: "x = (k, c)" by (cases x)
  show ?case
  proof (cases "callerId c = uid \<or> recipientId c = uid")
    case True
    have "{q \<in> set (x # xs). callerId (snd q) = uid \<or> recipientId (snd q) = uid}
            = insert x {q \<in> set xs. callerId (snd q) = uid \<or> recipientId (snd q) = uid}"
      using True x by auto
    then show ?thesis
      using True x Cons.IH
      by (auto simp: Let_def delete_is_filter intro!: filter_cong)
  next
    case False
    have "{q \<in> set (x # xs). callerId (snd q) = uid \<or> recipientId (snd q) = uid}
            = {q \<in> set xs. callerId (snd q) = uid \<or> recipientId (snd q) = uid}"
      using False x by auto
    then show ?thesis
      using False x Cons.IH by simp
  qed
qed

lemma end_calls_of_p1_frame:
  "nextTimer (snd (end_calls_of_p1 uid xs s)) = nextTimer s
   \<and> now (snd (end_calls_of_p1 uid xs s)) = now s
   \<and> set (callTimeouts (snd (end_calls_of_p1 uid xs s))) \<subseteq> set (callTimeouts s)"
proof (induction xs arbitrary: s)
  case Nil
  then show ?case by simp
next
  case (Cons x xs)
  obtain k c where x: "x = (k, c)" by (cases x)
  let ?s' = "clearCallTimeout k (s\<lparr>activeCalls := AList.delete k (activeCalls s)\<rparr>)"
  have "set (callTimeouts ?s') \<subseteq> set (callTimeouts s)"
    using set_delete_subset [of k "callTimeouts s"] by (simp add: clearCallTimeout_callTimeouts)
  with Cons.IH [of ?s'] Cons.IH [of s] x show ?case
    by (auto simp: Let_def)
qed

lemma end_calls_of_p1_keeps_timer:
  assumes "x \<in> set (timers s)"
    and "\<forall>p \<in> set (callTimeouts s). fst p \<noteq> cid \<longrightarrow> snd p \<noteq> handle x"
    and "\<forall>q \<in> set xs. callerId (snd q) = uid \<or> recipientId (snd q) = uid \<longrightarrow> fst q \<noteq> cid"
  shows "x \<in> set (timers (snd (end_calls_of_p1 uid xs s)))"
  using assms
proof (induction xs arbitrary: s)
  case Nil
  then show ?case by simp
next
  case (Cons e xs)
  obtain k c where e: "e = (k, c)" by (cases e)
  show ?case
  proof (cases "callerId c = uid \<or> recipientId c = uid")
    case False
    with e Cons show ?thesis by simp
  next
    case True
    let ?s' = "clearCallTimeout k (s\<lparr>activeCalls := AList.delete k (activeCalls s)\<rparr>)"
    from True e Cons.prems(3) have k: "k \<noteq> cid" by auto
    have "x \<in> set (timers (s\<lparr>activeCalls := AList.delete k (activeCalls s)\<rparr>))"
      using Cons.prems(1) by simp
    moreover have "\<forall>p \<in> set (callTimeouts (s\<lparr>activeCalls := AList.delete k (activeCalls s)\<rparr>)).
                     fst p = k \<longrightarrow> snd p \<noteq> handle x"
      using Cons.prems(2) k by auto
    ultimately have t: "x \<in> set (timers ?s')"
      by (rule clearCallTimeout_keeps_timer)
    have "set (callTimeouts ?s') \<subseteq> set (callTimeouts s)"
      using set_delete_subset [of k "callTimeouts s"] by (simp add: clearCallTimeout_callTimeouts)
    with Cons.prems(2)
    have c: "\<forall>p \<in> set (callTimeouts ?s'). fst p \<noteq> cid \<longrightarrow> snd p \<noteq> handle x" by blast
    from Cons.prems(3) have r: "\<forall>q \<in> set xs. callerId (snd q) = uid \<or> recipientId (snd q) = uid \<longrightarrow> fst q \<noteq> cid"
      by simp
    from Cons.IH [OF t c r] True e show ?thesis by (simp add: Let_def)
  qed
qed

lemma map_of_filter_keys:
  "k \<notin> K \<Longrightarrow> map_of (filter (\<lambda>p. fst p \<notin> K) xs) k = map_of xs k"
  by (induction xs) auto

lemma map_of_filter_keys_None:
  "map_of xs k = None \<Longrightarrow> map_of (filter (\<lambda>p. fst p \<notin> K) xs) k = None"
  by (induction xs) (auto split: if_splits)

lemma disconnect_keeps_ringing:
  assumes "still_ringing cid cd h D s"
    and "data_userId socket \<noteq> callerId cd" and "data_userId socket \<noteq> recipientId cd"
  shows "still_ringing cid cd h D (snd (on_disconnect_p1 socket s))
       \<and> filter (is_timeout_of cid) (fst (on_disconnect_p1 socket s)) = []"
proof -
  define uid where "uid = data_userId socket"
  define K where
    "K = fst ` {q \<in> set (activeCalls s). callerId (snd q) = uid \<or> recipientId (snd q) = uid}"
  let ?r = "end_calls_of_p1 uid (activeCalls s) s"
  from assms(1) have rec: "map_of (activeCalls s) cid = Some cd"
    and keys: "distinct (map fst (activeCalls s))"
    and pend: "\<lparr>handle = h, due = D, forCall = cid\<rparr> \<in> set (timers s)"
    and hs: "\<forall>p \<in> set (callTimeouts s). fst p \<noteq> cid \<longrightarrow> snd p \<noteq> h"
    and rest: "now s < D" "h < nextTimer s"
    by (simp_all add: still_ringing_def)
  have notK: "\<forall>q \<in> set (activeCalls s).
                callerId (snd q) = uid \<or> recipientId (snd q) = uid \<longrightarrow> fst q \<noteq> cid"
  proof (intro ballI impI)
    fix q assume q: "q \<in> set (activeCalls s)"
      and inv: "callerId (snd q) = uid \<or> recipientId (snd q) = uid"
    show "fst q \<noteq> cid"
    proof
      assume "fst q = cid"
      with q have "(cid, snd q) \<in> set (activeCalls s)" by (metis prod.collapse)
      with keys have "map_of (activeCalls s) cid = Some (snd q)" by (simp add: map_of_eq_Some_iff)
      with rec have "snd q = cd" by simp
      with inv assms(2,3) show False by (simp add: uid_def)
    qed
  qed
  then have "cid \<notin> K" by (auto simp: K_def)
  then have rec': "map_of (activeCalls (snd ?r)) cid = Some cd"
    using rec by (simp add: end_calls_of_p1_activeCalls K_def [symmetric] map_of_filter_keys)
  have keys': "distinct (map fst (activeCalls (snd ?r)))"
    using keys by (simp add: end_calls_of_p1_activeCalls distinct_map_filter)
  have pend': "\<lparr>handle = h, due = D, forCall = cid\<rparr> \<in> set (timers (snd ?r))"
    using end_calls_of_p1_keeps_timer [OF pend _ notK] hs by simp
  note frame = end_calls_of_p1_frame [of uid "activeCalls s" s]
  have "still_ringing cid cd h D (snd (on_disconnect_p1 socket s))"
    unfolding still_ringing_def
    using rec' keys' pend' frame hs rest
    by (auto simp: on_disconnect_p1_def Let_def uid_def [symmetric])
  moreover have "filter (is_timeout_of cid) (fst (on_disconnect_p1 socket s)) = []"
    by (simp add: on_disconnect_p1_def Let_def end_calls_of_p1_no_timeout is_timeout_of_def
        filter_empty_conv)
  ultimately show ?thesis by simp
qed

lemma clearCallTimeout_keeps_ringing:
  assumes "still_ringing cid cd h D s" and "k \<noteq> cid"
  shows "still_ringing cid cd h D (clearCallTimeout k s)"
proof -
  from assms(1) have pend: "\<lparr>handle = h, due = D, forCall = cid\<rparr> \<in> set (timers s)"
    and hs: "\<forall>p \<in> set (callTimeouts s). fst p \<noteq> cid \<longrightarrow> snd p \<noteq> h"
    by (simp_all add: still_ringing_def)
  have "\<lparr>handle = h, due = D, forCall = cid\<rparr> \<in> set (timers (clearCallTimeout k s))"
    using pend hs assms(2) by (intro clearCallTimeout_keeps_timer) auto
  moreover have "set (callTimeouts (clearCallTimeout k s)) \<subseteq> set (callTimeouts s)"
    using set_delete_subset [of k "callTimeouts s"] by (simp add: clearCallTimeout_callTimeouts)
  ultimately show ?thesis
    using assms(1) unfolding still_ringing_def by auto
qed

lemma delete_keeps_ringing:
  assumes "still_ringing cid cd h D s" and "k \<noteq> cid"
  shows "still_ringing cid cd h D (s\<lparr>activeCalls := AList.delete k (activeCalls s)\<rparr>)"
  using assms unfolding still_ringing_def
  by (auto simp: delete_conv distinct_delete)

lemma initiate_keeps_ringing:
  assumes "still_ringing cid cd h D s" and "callId d \<noteq> cid"
  shows "still_ringing cid cd h D (snd (on_call_initiate_p1 socket d s))
       \<and> filter (is_timeout_of cid) (fst (on_call_initiate_p1 socket d s)) = []"
proof (cases "callerId d = data_userId socket
              \<and> map_of (connectedUsers s) (recipientId d) \<noteq> None
              \<and> find (\<lambda>call. recipientId call = recipientId d) (map snd (activeCalls s)) = None")
  case False
  with assms(1) show ?thesis
    by (auto simp: on_call_initiate_p1_def is_timeout_of_def split: option.splits)
next
  case True
  then obtain rs where online: "map_of (connectedUsers s) (recipientId d) = Some rs" by auto
  define callData where
    "callData = \<lparr>callId = callId d, callType = callType d, callerId = callerId d,
                  callerName = callerName d, callerImage = callerImage d,
                  recipientId = recipientId d, timestamp = now s,
                  recipientName = recipientName d\<rparr>"
  have s1: "snd (on_call_initiate_p1 socket d s)
              = s\<lparr>activeCalls := AList.update (callId d) callData (activeCalls s),
                  timers := timers s @ [\<lparr>handle = nextTimer s, due = now s + 30000,
                                          forCall = callId d\<rparr>],
                  nextTimer := Suc (nextTimer s),
                  callTimeouts := AList.update (callId d) (nextTimer s) (callTimeouts s)\<rparr>"
    using True online
    by (simp add: on_call_initiate_p1_def Let_def setTimeout_def callData_def)
  have out: "fst (on_call_initiate_p1 socket d s)
               = [(ToRoom (recipientId d), call_incoming callData),
                  (ToSocket (socket_id socket),
                   call_initiated (callId d) (recipientId d) ''ringing'')]"
    using True online
    by (simp add: on_call_initiate_p1_def Let_def setTimeout_def callData_def)
  have "set (AList.update (callId d) (nextTimer s) (callTimeouts s))
          \<subseteq> insert (callId d, nextTimer s) (set (callTimeouts s))"
    by (rule set_update_subset)
  then have "still_ringing cid cd h D (snd (on_call_initiate_p1 socket d s))"
    using assms unfolding still_ringing_def s1
    by (auto simp: update_conv' distinct_update)
  then show ?thesis by (simp add: out is_timeout_of_def)
qed

lemma ringing_step:
  assumes "still_ringing cid cd h D s"
    and "\<not> touches_call_p1 cid (callerId cd) (recipientId cd) e"
  shows "(still_ringing cid cd h D (snd (dispatch_p1 e s))
            \<and> filter (is_timeout_of cid) (fst (dispatch_p1 e s)) = [])
       \<or> (map_of (activeCalls (snd (dispatch_p1 e s))) cid = None
            \<and> filter (is_timeout_of cid) (fst (dispatch_p1 e s)) = timeout_pair cid cd)"
proof (cases e)
  case (Clock_p1 t)
  with idle_keeps_ringing [OF assms(1), of t] show ?thesis by simp
next
  case (Disconnect_p1 socket)
  with assms(2) disconnect_keeps_ringing [OF assms(1), of socket] show ?thesis by simp
next
  case (Call_initiate_p1 socket d)
  with assms(2) initiate_keeps_ringing [OF assms(1), of d socket] show ?thesis by simp
next
  case (Call_accept_p1 socket k caller)
  with assms(2) have k: "k \<noteq> cid" by simp
  from clearCallTimeout_keeps_ringing [OF assms(1) k] assms(1) Call_accept_p1 show ?thesis
    by (auto simp: on_call_accept_p1_def is_timeout_of_def split: option.splits)
next
  case (Call_reject_p1 socket k caller reason)
  with assms(2) have k: "k \<noteq> cid" by simp
  from clearCallTimeout_keeps_ringing [OF delete_keeps_ringing [OF assms(1) k] k] Call_reject_p1
  show ?thesis
    by (simp add: on_call_reject_p1_def is_timeout_of_def)
next
  case (Call_end_p1 socket k recipient)
  with assms(2) have k: "k \<noteq> cid" by simp
  from clearCallTimeout_keeps_ringing [OF delete_keeps_ringing [OF assms(1) k] k] Call_end_p1
  show ?thesis
    by (simp add: on_call_end_p1_def is_timeout_of_def Let_def)
next
  case (Call_timeout_p1 socket k recipient)
  with assms(2) have k: "k \<noteq> cid" by simp
  from clearCallTimeout_keeps_ringing [OF delete_keeps_ringing [OF assms(1) k] k] Call_timeout_p1 k
  show ?thesis
    by (simp add: on_call_timeout_p1_def is_timeout_of_def)
next
  case (Connection_p1 socket)
  with assms(1) show ?thesis
    by (simp add: handleConnection_p1_def still_ringing_def is_timeout_of_def Let_def)
next
  case (Join_conversation_p1 socket other)
  with assms(1) show ?thesis
    by (auto simp: on_join_conversation_def still_ringing_def is_timeout_of_def Let_def
        split: option.splits)
next
  case (Leave_conversation_p1 socket other)
  with assms(1) show ?thesis
    by (auto simp: on_leave_conversation_def still_ringing_def is_timeout_of_def Let_def
        split: option.splits)
next
  case (Send_message_p1 socket r m mt)
  with assms(1) show ?thesis
    by (auto simp: on_send_message_def still_ringing_def is_timeout_of_def Let_def
        split: option.splits)
qed (use assms(1) in \<open>auto simp: on_typing_def on_webrtc_offer_p1_def on_webrtc_answer_p1_def
      on_webrtc_ice_candidate_p1_def is_timeout_of_def Let_def\<close>)

lemma absent_step:
  assumes "map_of (activeCalls s) cid = None"
    and "\<not> touches_call_p1 cid caller recipient e"
  shows "map_of (activeCalls (snd (dispatch_p1 e s))) cid = None
       \<and> filter (is_timeout_of cid) (fst (dispatch_p1 e s)) = []"
proof (cases e)
  case (Clock_p1 t)
  with run_callbacks_p1_absent
    [of "s\<lparr>now := max (now s) t, timers := filter (\<lambda>x. \<not> due x \<le> t) (timers s)\<rparr>" cid]
    assms(1)
  show ?thesis by (simp add: idle_until_def)
next
  case (Disconnect_p1 socket)
  with assms(1) show ?thesis
    by (simp add: on_disconnect_p1_def Let_def end_calls_of_p1_activeCalls
        map_of_filter_keys_None end_calls_of_p1_no_timeout is_timeout_of_def filter_empty_conv)
next
  case (Call_initiate_p1 socket d)
  with assms show ?thesis
    by (auto simp: on_call_initiate_p1_def Let_def setTimeout_def update_conv' is_timeout_of_def
        split: option.splits)
next
  case (Call_accept_p1 socket k caller')
  with assms show ?thesis
    by (auto simp: on_call_accept_p1_def is_timeout_of_def split: option.splits)
next
  case (Call_reject_p1 socket k caller' reason)
  with assms show ?thesis
    by (simp add: on_call_reject_p1_def is_timeout_of_def delete_conv)
next
  case (Call_end_p1 socket k recipient')
  with assms show ?thesis
    by (simp add: on_call_end_p1_def is_timeout_of_def delete_conv Let_def)
next
  case (Call_timeout_p1 socket k recipient')
  with assms show ?thesis
    by (simp add: on_call_timeout_p1_def is_timeout_of_def delete_conv)
next
  case (Connection_p1 socket)
  with assms(1) show ?thesis
    by (simp add: handleConnection_p1_def is_timeout_of_def Let_def)
next
  case (Join_conversation_p1 socket other)
  with assms(1) show ?thesis
    by (auto simp: on_join_conversation_def is_timeout_of_def Let_def split: option.splits)
next
  case (Leave_conversation_p1 socket other)
  with assms(1) show ?thesis
    by (auto simp: on_leave_conversation_def is_timeout_of_def Let_def split: option.splits)
next
  case (Send_message_p1 socket r m mt)
  with assms(1) show ?thesis
    by (auto simp: on_send_message_def is_timeout_of_def Let_def split: option.splits)
qed (use assms(1) in \<open>auto simp: on_typing_def on_webrtc_offer_p1_def on_webrtc_answer_p1_def
      on_webrtc_ice_candidate_p1_def is_timeout_of_def Let_def\<close>)

lemma absent_run:
  assumes "map_of (activeCalls s) cid = None"
    and "\<forall>e \<in> set es. \<not> touches_call_p1 cid caller recipient e"
  shows "map_of (activeCalls (snd (run_p1 es s))) cid = None
       \<and> filter (is_timeout_of cid) (fst (run_p1 es s)) = []"
  using assms
proof (induction es arbitrary: s)
  case Nil
  then show ?case by simp
next
  case (Cons e es)
  from Cons.prems have e: "\<not> touches_call_p1 cid caller recipient e"
    and rest: "\<forall>e \<in> set es. \<not> touches_call_p1 cid caller recipient e" by simp_all
  note step = absent_step [OF Cons.prems(1) e]
  from Cons.IH [OF _ rest, of "snd (dispatch_p1 e s)"] step show ?case
    by (simp add: Let_def)
qed

lemma ringing_run:
  assumes "still_ringing cid cd h D s"
    and "\<forall>e \<in> set es. \<not> touches_call_p1 cid (callerId cd) (recipientId cd) e"
  shows "(still_ringing cid cd h D (snd (run_p1 es s))
            \<and> filter (is_timeout_of cid) (fst (run_p1 es s)) = [])
       \<or> (map_of (activeCalls (snd (run_p1 es s))) cid = None
            \<and> filter (is_timeout_of cid) (fst (run_p1 es s)) = timeout_pair cid cd)"
  using assms
proof (induction es arbitrary: s)
  case Nil
  then show ?case by simp
next
  case (Cons e es)
  from Cons.prems have e: "\<not> touches_call_p1 cid (callerId cd) (recipientId cd) e"
    and rest: "\<forall>e \<in> set es. \<not> touches_call_p1 cid (callerId cd) (recipientId cd) e"
    by simp_all
  let ?s' = "snd (dispatch_p1 e s)"
  from ringing_step [OF Cons.prems(1) e]
  consider (ring) "still_ringing cid cd h D ?s'"
                  "filter (is_timeout_of cid) (fst (dispatch_p1 e s)) = []"
    | (fired) "map_of (activeCalls ?s') cid = None"
              "filter (is_timeout_of cid) (fst (dispatch_p1 e s)) = timeout_pair cid cd"
    by (elim disjE conjE)
  then show ?case
  proof cases
    case ring
    from Cons.IH [OF ring(1) rest] ring(2) show ?thesis by (simp add: Let_def)
  next
    case fired
    from absent_run [OF fired(1) rest] fired(2) show ?thesis by (simp add: Let_def)
  qed
qed

lemma wf_p1_step:
  assumes "distinct (map fst (activeCalls s)) \<and> (\<forall>p \<in> set (callTimeouts s). snd p < nextTimer s)"
  shows "distinct (map fst (activeCalls (snd (dispatch_p1 e s))))
       \<and> (\<forall>p \<in> set (callTimeouts (snd (dispatch_p1 e s))). snd p < nextTimer (snd (dispatch_p1 e s)))"
proof (cases e)
  case (Clock_p1 t)
  from run_callbacks_p1_frame
    [of "sort_key due (filter (\<lambda>x. due x \<le> t) (timers s))"
        "s\<lparr>now := max (now s) t, timers := filter (\<lambda>x. \<not> due x \<le> t) (timers s)\<rparr>"]
    assms Clock_p1
  show ?thesis by (auto simp: idle_until_def)
next
  case (Disconnect_p1 socket)
  from end_calls_of_p1_frame [of "data_userId socket" "activeCalls s" s] assms Disconnect_p1
  show ?thesis
    by (auto simp: on_disconnect_p1_def Let_def end_calls_of_p1_activeCalls distinct_map_filter)
next
  case (Call_initiate_p1 socket d)
  from set_update_subset [of "callId d" "nextTimer s" "callTimeouts s"] assms Call_initiate_p1
  show ?thesis
    by (fastforce simp: on_call_initiate_p1_def Let_def setTimeout_def distinct_update
        split: option.splits)
next
  case (Call_accept_p1 socket k caller)
  from set_delete_subset [of k "callTimeouts s"] assms Call_accept_p1 show ?thesis
    by (auto simp: on_call_accept_p1_def clearCallTimeout_callTimeouts split: option.splits)
next
  case (Call_reject_p1 socket k caller reason)
  from set_delete_subset [of k "callTimeouts s"] assms Call_reject_p1 show ?thesis
    by (auto simp: on_call_reject_p1_def clearCallTimeout_callTimeouts distinct_delete)
next
  case (Call_end_p1 socket k recipient)
  from set_delete_subset [of k "callTimeouts s"] assms Call_end_p1 show ?thesis
    by (auto simp: on_call_end_p1_def clearCallTimeout_callTimeouts distinct_delete Let_def)
next
  case (Call_timeout_p1 socket k recipient)
  from set_delete_subset [of k "callTimeouts s"] assms Call_timeout_p1 show ?thesis
    by (auto simp: on_call_timeout_p1_def clearCallTimeout_callTimeouts distinct_delete)
next
  case (Connection_p1 socket)
  with assms show ?thesis by (simp add: handleConnection_p1_def Let_def)
next
  case (Join_conversation_p1 socket other)
  with assms show ?thesis
    by (auto simp: on_join_conversation_def Let_def split: option.splits)
next
  case (Leave_conversation_p1 socket other)
  with assms show ?thesis
    by (auto simp: on_leave_conversation_def Let_def split: option.splits)
next
  case (Send_message_p1 socket r m mt)
  with assms show ?thesis
    by (auto simp: on_send_message_def Let_def split: option.splits)
qed (use assms in \<open>auto simp: on_typing_def on_webrtc_offer_p1_def on_webrtc_answer_p1_def
      on_webrtc_ice_candidate_p1_def Let_def\<close>)

lemma reachable_p1_wf:
  "reachable_p1 s \<Longrightarrow>
   distinct (map fst (activeCalls s)) \<and> (\<forall>p \<in> set (callTimeouts s). snd p < nextTimer s)"
proof (induction rule: reachable_p1.induct)
  case fresh_p1
  then show ?case by (simp add: server0_def)
next
  case (event_p1 s e)
  from event_p1.IH show ?case by (rule wf_p1_step)
qed

lemma reachable_p1_run: "reachable_p1 s \<Longrightarrow> reachable_p1 (snd (run_p1 es s))"
  by (induction es arbitrary: s) (auto simp: Let_def intro: reachable_p1.event_p1)

text \<open>A successful initiate of \<open>part_001\<close> leaves the call ringing.\<close>

lemma initiate_starts_ringing:
  assumes "reachable_p1 s"
    and "callerId d = data_userId socket"
    and "map_of (connectedUsers s) (recipientId d) \<noteq> None"
    and "find (\<lambda>call. recipientId call = recipientId d) (map snd (activeCalls s)) = None"
  shows "still_ringing (callId d)
           \<lparr>callId = callId d, callType = callType d, callerId = callerId d,
            callerName = callerName d, callerImage = callerImage d,
            recipientId = recipientId d, timestamp = now s,
            recipientName = recipientName d\<rparr>
           (nextTimer s) (now s + 30000) (snd (on_call_initiate_p1 socket d s))"
proof -
  from assms(3) obtain rs where online: "map_of (connectedUsers s) (recipientId d) = Some rs"
    by auto
  define callData where
    "callData = \<lparr>callId = callId d, callType = callType d, callerId = callerId d,
                  callerName = callerName d, callerImage = callerImage d,
                  recipientId = recipientId d, timestamp = now s,
                  recipientName = recipientName d\<rparr>"
  have s1: "snd (on_call_initiate_p1 socket d s)
              = s\<lparr>activeCalls := AList.update (callId d) callData (activeCalls s),
                  timers := timers s @ [\<lparr>handle = nextTimer s, due = now s + 30000,
                                          forCall = callId d\<rparr>],
                  nextTimer := Suc (nextTimer s),
                  callTimeouts := AList.update (callId d) (nextTimer s) (callTimeouts s)\<rparr>"
    using assms(2,4) online
    by (simp add: on_call_initiate_p1_def Let_def setTimeout_def callData_def)
  from reachable_p1_wf [OF assms(1)]
  have keys: "distinct (map fst (activeCalls s))"
    and hs: "\<forall>p \<in> set (callTimeouts s). snd p < nextTimer s" by simp_all
  have "set (AList.update (callId d) (nextTimer s) (callTimeouts s))
          \<subseteq> insert (callId d, nextTimer s) (set (callTimeouts s))"
    by (rule set_update_subset)
  with hs have others: "\<forall>p \<in> set (AList.update (callId d) (nextTimer s) (callTimeouts s)).
                          fst p \<noteq> callId d \<longrightarrow> snd p \<noteq> nextTimer s"
    by fastforce
  show ?thesis
    unfolding callData_def [symmetric] still_ringing_def s1
    using keys others by (simp add: update_conv' distinct_update)
qed

lemma ringing_call_times_out_p1:
  assumes "reachable_p1 s"
    and "callerId d = data_userId socket"
    and "map_of (connectedUsers s) (recipientId d) \<noteq> None"
    and "find (\<lambda>call. recipientId call = recipientId d) (map snd (activeCalls s)) = None"
    and "\<forall>e \<in> set es. \<not> touches_call_p1 (callId d) (callerId d) (recipientId d) e"
  shows "(map_of (activeCalls (snd (run_p1 es (snd (on_call_initiate_p1 socket d s))))) (callId d)
            = Some \<lparr>callId = callId d, callType = callType d, callerId = callerId d,
                    callerName = callerName d, callerImage = callerImage d,
                    recipientId = recipientId d, timestamp = now s,
                    recipientName = recipientName d\<rparr>
          \<and> filter (is_timeout_of (callId d))
                (fst (run_p1 es (snd (on_call_initiate_p1 socket d s)))) = []
          \<and> now (snd (run_p1 es (snd (on_call_initiate_p1 socket d s)))) < now s + 30000)
       \<or> (map_of (activeCalls (snd (run_p1 es (snd (on_call_initiate_p1 socket d s))))) (callId d)
            = None
          \<and> filter (is_timeout_of (callId d))
                (fst (run_p1 es (snd (on_call_initiate_p1 socket d s))))
              = [(ToRoom (callerId d), call_timeout (callId d) (Some ''No answer from recipient'')),
                 (ToRoom (recipientId d), call_timeout (callId d) (Some ''Call timed out''))])"
proof -
  define callData where
    "callData = \<lparr>callId = callId d, callType = callType d, callerId = callerId d,
                  callerName = callerName d, callerImage = callerImage d,
                  recipientId = recipientId d, timestamp = now s,
                  recipientName = recipientName d\<rparr>"
  have start: "still_ringing (callId d) callData (nextTimer s) (now s + 30000)
                 (snd (on_call_initiate_p1 socket d s))"
    unfolding callData_def by (rule initiate_starts_ringing [OF assms(1-4)])
  have quiet: "\<forall>e \<in> set es. \<not> touches_call_p1 (callId d) (callerId callData) (recipientId callData) e"
    using assms(5) by (simp add: callData_def)
  from ringing_run [OF start quiet] show ?thesis
    unfolding callData_def [symmetric]
    by (auto simp: still_ringing_def timeout_pair_def callData_def)
qed

lemma ringing_call_stays_step:
  assumes "reachable s" and "map_of (activeCalls s) cid = Some cd"
    and "\<not> removes_call cid (callerId cd) (recipientId cd) e"
  shows "map_of (activeCalls (snd (dispatch e s))) cid = Some cd"
proof (cases e)
  case (Disconnect socket)
  define uid where "uid = data_userId socket"
  define K where
    "K = fst ` {q \<in> set (activeCalls s). callerId (snd q) = uid \<or> recipientId (snd q) = uid}"
  from assms(3) Disconnect have np: "uid \<noteq> callerId cd" "uid \<noteq> recipientId cd"
    by (simp_all add: uid_def)
  have keys: "distinct (map fst (activeCalls s))"
    using assms(1) by (rule reachable_call_keys_distinct)
  have "cid \<notin> K"
  proof
    assume "cid \<in> K"
    then obtain q where q: "q \<in> set (activeCalls s)" "fst q = cid"
      and inv: "callerId (snd q) = uid \<or> recipientId (snd q) = uid"
      by (auto simp: K_def)
    from q have "(cid, snd q) \<in> set (activeCalls s)" by (metis prod.collapse)
    with keys have "map_of (activeCalls s) cid = Some (snd q)" by (simp add: map_of_eq_Some_iff)
    with assms(2) have "snd q = cd" by simp
    with inv np show False by simp
  qed
  then show ?thesis
    using assms(2) Disconnect
    by (simp add: on_disconnect_def Let_def end_calls_of_activeCalls uid_def [symmetric]
        K_def [symmetric] map_of_filter_keys)
next
  case (Call_initiate socket d)
  with assms(2,3) show ?thesis
    by (auto simp: on_call_initiate_def Let_def update_conv' split: option.splits)
next
  case (Join_conversation socket other)
  with assms(2) show ?thesis
    by (auto simp: on_join_conversation_def Let_def split: option.splits)
next
  case (Leave_conversation socket other)
  with assms(2) show ?thesis
    by (auto simp: on_leave_conversation_def Let_def split: option.splits)
next
  case (Send_message socket r m mt)
  with assms(2) show ?thesis
    by (auto simp: on_send_message_def Let_def split: option.splits)
qed (use assms(2,3) in \<open>auto simp: handleConnection_def on_typing_def on_call_accept_def
      on_call_reject_def on_call_end_def on_call_timeout_def on_webrtc_offer_def
      on_webrtc_answer_def on_webrtc_ice_candidate_def idle_until_def Let_def delete_conv
      split: option.splits\<close>)

lemma ringing_call_stays:
  assumes "reachable s" and "map_of (activeCalls s) cid = Some cd"
    and "\<forall>e \<in> set es. \<not> removes_call cid (callerId cd) (recipientId cd) e"
  shows "map_of (activeCalls (run es s)) cid = Some cd"
  using assms
proof (induction es arbitrary: s)
  case Nil
  then show ?case by simp
next
  case (Cons e es)
  from Cons.prems have e: "\<not> removes_call cid (callerId cd) (recipientId cd) e"
    and rest: "\<forall>e \<in> set es. \<not> removes_call cid (callerId cd) (recipientId cd) e" by simp_all
  have "reachable (snd (dispatch e s))" using Cons.prems(1) by (rule reachable.event)
  moreover have "map_of (activeCalls (snd (dispatch e s))) cid = Some cd"
    using Cons.prems(1,2) e by (rule ringing_call_stays_step)
  ultimately show ?case using Cons.IH rest by simp
qed

lemma p1_online_eq:
  "snd (run_p1 p1_connections server0) =
     \<lparr>now = 0, activeConversations = [],
      connectedUsers =
        [(''u1'', \<lparr>userId = ''u1'', socketId = ''s1'', userConversations = []\<rparr>),
         (''u2'', \<lparr>userId = ''u2'', socketId = ''s2'', userConversations = []\<rparr>),
         (''u3'', \<lparr>userId = ''u3'', socketId = ''s3'', userConversations = []\<rparr>)],
      activeCalls = [], callTimeouts = [], timers = [], nextTimer = 0\<rparr>"
  by (simp add: p1_connections_def handleConnection_p1_def server0_def sock_def Let_def)

lemma run_p1_append:
  "run_p1 (xs @ ys) s
     = (fst (run_p1 xs s) @ fst (run_p1 ys (snd (run_p1 xs s))),
        snd (run_p1 ys (snd (run_p1 xs s))))"
  by (induction xs arbitrary: s) (simp_all add: Let_def)

lemma p1_ringing_eq:
  "p1_ringing =
     \<lparr>now = 0, activeConversations = [],
      connectedUsers =
        [(''u1'', \<lparr>userId = ''u1'', socketId = ''s1'', userConversations = []\<rparr>),
         (''u2'', \<lparr>userId = ''u2'', socketId = ''s2'', userConversations = []\<rparr>),
         (''u3'', \<lparr>userId = ''u3'', socketId = ''s3'', userConversations = []\<rparr>)],
      activeCalls = [(''c1'', call_of_p1 ''c1'' ''u1'' ''u2'')],
      callTimeouts = [(''c1'', 0)],
      timers = [\<lparr>handle = 0, due = 30000, forCall = ''c1''\<rparr>], nextTimer = 1\<rparr>"
  unfolding p1_ringing_def run_p1_append
  by (simp add: p1_online_eq p1_call_def on_call_initiate_p1_def sock_def call_of_p1_def
      setTimeout_def Let_def)

lemma reachable_server_ringing: "reachable server_ringing"
proof -
  have eq: "server_ringing
          = run [Connection (sock ''u1'' ''s1''), Connection (sock ''u2'' ''s2''),
                 Connection (sock ''u3'' ''s3''),
                 Call_initiate (sock ''u1'' ''s1'') (call_of ''c1'' ''u1'' ''u2'')] server0"
    by (simp add: server_ringing_def server_online_def)
  show ?thesis unfolding eq by (rule reachable_run [OF reachable.fresh])
qed

lemma clock_reached: "t \<le> now (snd (run_p1 (es @ [Clock_p1 t]) s))"
  using run_callbacks_p1_frame
    [of "sort_key due (filter (\<lambda>x. due x \<le> t) (timers (snd (run_p1 es s))))"
        "(snd (run_p1 es s))\<lparr>now := max (now (snd (run_p1 es s))) t,
            timers := filter (\<lambda>x. \<not> due x \<le> t) (timers (snd (run_p1 es s)))\<rparr>"]
  by (simp add: run_p1_append idle_until_def Let_def)

text \<open>
  C4 as claimed: every call that \<open>initiate\<close> places reaches a terminal state by the
  deadline with no further client action, provided neither party accepts, rejects or
  ends it, and the timeout fires exactly once. It fails in four ways.
  \<^item> \<open>socket.chat.ts\<close> sets no timer: after \<open>u1\<close> has called \<open>u2\<close> the timer queue is
    empty, 30 seconds with no event change nothing but the clock, and after an hour the
    record \<open>c1\<close> is still in \<open>activeCalls\<close>.
  \<^item> In \<open>part_001\<close>, \<open>u3\<close>, who is no party of \<open>c1\<close>, rejects it: the record and the
    timer go, and at the deadline no \<open>call:timeout\<close> is emitted.
  \<^item> In \<open>part_001\<close>, the callee \<open>u2\<close> disconnects: the same.
  \<^item> In \<open>part_001\<close>, \<open>u1\<close> initiates again with the \<open>callId\<close> \<open>c1\<close>, now to \<open>u3\<close>: the
    record is replaced, and the timer of the first call times out the second, telling
    \<open>u1\<close> and \<open>u3\<close>; \<open>u2\<close> is told nothing.
\<close>

theorem C4_timeout_counterexample:
  "server_ringing
     = snd (on_call_initiate (sock ''u1'' ''s1'') (call_of ''c1'' ''u1'' ''u2'') server_online)
   \<and> map_of (activeCalls server_ringing) ''c1'' = Some (call_of ''c1'' ''u1'' ''u2'')
   \<and> timers server_ringing = []
   \<and> idle_until no_callback 30000 server_ringing = ([], server_ringing\<lparr>now := 30000\<rparr>)
   \<and> map_of (activeCalls (snd (idle_until no_callback 3600000 server_ringing))) ''c1''
       = Some (call_of ''c1'' ''u1'' ''u2'')
   \<and> map_of (activeCalls p1_ringing) ''c1'' = Some (call_of_p1 ''c1'' ''u1'' ''u2'')
   \<and> filter (is_timeout_of ''c1'')
         (fst (run_p1 [Call_reject_p1 (sock ''u3'' ''s3'') ''c1'' ''u1'' None, Clock_p1 30000]
                 p1_ringing)) = []
   \<and> filter (is_timeout_of ''c1'')
         (fst (run_p1 [Disconnect_p1 (sock ''u2'' ''s2''), Clock_p1 30000] p1_ringing)) = []
   \<and> filter (is_timeout_of ''c1'')
         (fst (run_p1 [Clock_p1 10000,
                       Call_initiate_p1 (sock ''u1'' ''s1'') (call_of_p1 ''c1'' ''u1'' ''u3''),
                       Clock_p1 30000] p1_ringing))
       = [(ToRoom ''u1'', call_timeout ''c1'' (Some ''No answer from recipient'')),
          (ToRoom ''u3'', call_timeout ''c1'' (Some ''Call timed out''))]"
proof -
  have v1: "map_of (activeCalls server_ringing) ''c1'' = Some (call_of ''c1'' ''u1'' ''u2'')
     \<and> timers server_ringing = []
     \<and> idle_until no_callback 30000 server_ringing = ([], server_ringing\<lparr>now := 30000\<rparr>)
     \<and> map_of (activeCalls (snd (idle_until no_callback 3600000 server_ringing))) ''c1''
         = Some (call_of ''c1'' ''u1'' ''u2'')"
    by (simp add: idle_until_def) (simp add: server_ringing_eq)
  have rec: "map_of (activeCalls p1_ringing) ''c1'' = Some (call_of_p1 ''c1'' ''u1'' ''u2'')"
    by (simp add: p1_ringing_eq)
  have rej: "filter (is_timeout_of ''c1'')
         (fst (run_p1 [Call_reject_p1 (sock ''u3'' ''s3'') ''c1'' ''u1'' None, Clock_p1 30000]
                 p1_ringing)) = []"
    by (simp add: p1_ringing_eq on_call_reject_p1_def clearCallTimeout_def clearTimeout_def
        idle_until_def sock_def Let_def is_timeout_of_def)
  have dis: "filter (is_timeout_of ''c1'')
         (fst (run_p1 [Disconnect_p1 (sock ''u2'' ''s2''), Clock_p1 30000] p1_ringing)) = []"
    by (simp add: p1_ringing_eq on_disconnect_p1_def clearCallTimeout_def clearTimeout_def
        idle_until_def sock_def call_of_p1_def Let_def is_timeout_of_def)
  have reuse: "filter (is_timeout_of ''c1'')
         (fst (run_p1 [Clock_p1 10000,
                       Call_initiate_p1 (sock ''u1'' ''s1'') (call_of_p1 ''c1'' ''u1'' ''u3''),
                       Clock_p1 30000] p1_ringing))
       = [(ToRoom ''u1'', call_timeout ''c1'' (Some ''No answer from recipient'')),
          (ToRoom ''u3'', call_timeout ''c1'' (Some ''Call timed out''))]"
    by (simp add: p1_ringing_eq on_call_initiate_p1_def setTimeout_def timeout_callback_p1_def
        idle_until_def sock_def call_of_p1_def Let_def is_timeout_of_def)
  show ?thesis
    using v1 rec rej dis reuse by (simp add: server_ringing_def)
qed

text \<open>
  C4, amended. In \<open>part_001\<close>, from every reachable state: when \<open>call:initiate\<close>
  succeeds at time \<open>now s\<close> it stores the record and sets a timer due 30000 ms later.
  Let any events follow (client events of any connection, and time passing with the
  timers that fall due being run), none of which names the \<open>callId\<close> of the call (an
  initiate, accept, reject, end or client-sent timeout with it) or is the disconnect of
  its caller or recipient. Then at every moment either the record is still stored, no
  \<open>call:timeout\<close> about the call has been emitted and the deadline has not come, or
  the record is gone and exactly two \<open>call:timeout\<close> about the call have been emitted,
  one to the caller and one to the recipient. So once the clock has reached the deadline
  the record is removed and the timeout has fired once, never twice, and never again
  after the record was removed.
  In \<open>socket.chat.ts\<close>, from every reachable state, a stored call record stays as it is
  under every list of events that holds no initiate, reject, end or client-sent timeout
  with its \<open>callId\<close> and no disconnect of its caller or recipient, however much time
  passes; and no timer is ever pending.
\<close>

theorem C4_ringing_call_times_out:
  "(reachable_p1 s
      \<and> callerId d = data_userId socket
      \<and> map_of (connectedUsers s) (recipientId d) \<noteq> None
      \<and> find (\<lambda>call. recipientId call = recipientId d) (map snd (activeCalls s)) = None
      \<and> (\<forall>e \<in> set es. \<not> touches_call_p1 (callId d) (callerId d) (recipientId d) e)
    \<longrightarrow>
      \<lparr>handle = nextTimer s, due = now s + 30000, forCall = callId d\<rparr>
         \<in> set (timers (snd (on_call_initiate_p1 socket d s)))
      \<and> ((map_of (activeCalls (snd (run_p1 es (snd (on_call_initiate_p1 socket d s))))) (callId d)
              = Some \<lparr>callId = callId d, callType = callType d, callerId = callerId d,
                      callerName = callerName d, callerImage = callerImage d,
                      recipientId = recipientId d, timestamp = now s,
                      recipientName = recipientName d\<rparr>
            \<and> filter (is_timeout_of (callId d))
                  (fst (run_p1 es (snd (on_call_initiate_p1 socket d s)))) = []
            \<and> now (snd (run_p1 es (snd (on_call_initiate_p1 socket d s)))) < now s + 30000)
         \<or> (map_of (activeCalls (snd (run_p1 es (snd (on_call_initiate_p1 socket d s))))) (callId d)
              = None
            \<and> filter (is_timeout_of (callId d))
                  (fst (run_p1 es (snd (on_call_initiate_p1 socket d s))))
                = [(ToRoom (callerId d),
                    call_timeout (callId d) (Some ''No answer from recipient'')),
                   (ToRoom (recipientId d), call_timeout (callId d) (Some ''Call timed out''))]))
      \<and> (now s + 30000 \<le> now (snd (run_p1 es (snd (on_call_initiate_p1 socket d s)))) \<longrightarrow>
            map_of (activeCalls (snd (run_p1 es (snd (on_call_initiate_p1 socket d s))))) (callId d)
              = None
            \<and> filter (is_timeout_of (callId d))
                  (fst (run_p1 es (snd (on_call_initiate_p1 socket d s))))
                = [(ToRoom (callerId d),
                    call_timeout (callId d) (Some ''No answer from recipient'')),
                   (ToRoom (recipientId d), call_timeout (callId d) (Some ''Call timed out''))]))
   \<and> (reachable sV
         \<and> map_of (activeCalls sV) cid = Some cd
         \<and> (\<forall>e \<in> set esV. \<not> removes_call cid (callerId cd) (recipientId cd) e)
       \<longrightarrow> map_of (activeCalls (run esV sV)) cid = Some cd \<and> timers (run esV sV) = [])"
proof (intro conjI impI)
  assume a: "reachable_p1 s
      \<and> callerId d = data_userId socket
      \<and> map_of (connectedUsers s) (recipientId d) \<noteq> None
      \<and> find (\<lambda>call. recipientId call = recipientId d) (map snd (activeCalls s)) = None
      \<and> (\<forall>e \<in> set es. \<not> touches_call_p1 (callId d) (callerId d) (recipientId d) e)"
  then have a1: "reachable_p1 s" and a2: "callerId d = data_userId socket"
    and a3: "map_of (connectedUsers s) (recipientId d) \<noteq> None"
    and a4: "find (\<lambda>call. recipientId call = recipientId d) (map snd (activeCalls s)) = None"
    and a5: "\<forall>e \<in> set es. \<not> touches_call_p1 (callId d) (callerId d) (recipientId d) e"
    by blast+
  from initiate_starts_ringing [OF a1 a2 a3 a4]
  show "\<lparr>handle = nextTimer s, due = now s + 30000, forCall = callId d\<rparr>
         \<in> set (timers (snd (on_call_initiate_p1 socket d s)))"
    by (simp add: still_ringing_def)
  note main = ringing_call_times_out_p1 [OF a1 a2 a3 a4 a5]
  from main
  show "(map_of (activeCalls (snd (run_p1 es (snd (on_call_initiate_p1 socket d s))))) (callId d)
              = Some \<lparr>callId = callId d, callType = callType d, callerId = callerId d,
                      callerName = callerName d, callerImage = callerImage d,
                      recipientId = recipientId d, timestamp = now s,
                      recipientName = recipientName d\<rparr>
            \<and> filter (is_timeout_of (callId d))
                  (fst (run_p1 es (snd (on_call_initiate_p1 socket d s)))) = []
            \<and> now (snd (run_p1 es (snd (on_call_initiate_p1 socket d s)))) < now s + 30000)
         \<or> (map_of (activeCalls (snd (run_p1 es (snd (on_call_initiate_p1 socket d s))))) (callId d)
              = None
            \<and> filter (is_timeout_of (callId d))
                  (fst (run_p1 es (snd (on_call_initiate_p1 socket d s))))
                = [(ToRoom (callerId d),
                    call_timeout (callId d) (Some ''No answer from recipient'')),
                   (ToRoom (recipientId d), call_timeout (callId d) (Some ''Call timed out''))])"
    .
  {
    assume late: "now s + 30000 \<le> now (snd (run_p1 es (snd (on_call_initiate_p1 socket d s))))"
    with main
    show "map_of (activeCalls (snd (run_p1 es (snd (on_call_initiate_p1 socket d s))))) (callId d)
              = None"
      by auto
    from late main
    show "filter (is_timeout_of (callId d))
                  (fst (run_p1 es (snd (on_call_initiate_p1 socket d s))))
                = [(ToRoom (callerId d),
                    call_timeout (callId d) (Some ''No answer from recipient'')),
                   (ToRoom (recipientId d), call_timeout (callId d) (Some ''Call timed out''))]"
      by auto
  }
next
  assume b: "reachable sV \<and> map_of (activeCalls sV) cid = Some cd
         \<and> (\<forall>e \<in> set esV. \<not> removes_call cid (callerId cd) (recipientId cd) e)"
  then show "map_of (activeCalls (run esV sV)) cid = Some cd"
    using ringing_call_stays [of sV cid cd esV] by blast
  from b have "reachable (run esV sV)" by (simp add: reachable_run)
  then show "timers (run esV sV) = []" by (rule reachable_no_timers)
qed

text \<open>
  In \<open>part_001\<close>, while \<open>c1\<close> rings, \<open>u3\<close> joins a conversation, calls \<open>u1\<close> and is
  rejected, and the clock reaches the deadline of \<open>c1\<close>. In \<open>socket.chat.ts\<close>, \<open>c1\<close>
  is accepted, an offer is relayed and an hour passes.
\<close>

theorem C4_ringing_call_times_out_witness:
  "reachable_p1 (snd (run_p1 p1_connections server0))
   \<and> snd (on_call_initiate_p1 (sock ''u1'' ''s1'') (call_of_p1 ''c1'' ''u1'' ''u2'')
            (snd (run_p1 p1_connections server0))) = p1_ringing
   \<and> timers p1_ringing = [\<lparr>handle = 0, due = 30000, forCall = ''c1''\<rparr>]
   \<and> map_of (activeCalls
         (snd (run_p1 [Join_conversation_p1 (sock ''u3'' ''s3'') ''u1'',
                       Call_initiate_p1 (sock ''u3'' ''s3'') (call_of_p1 ''c2'' ''u3'' ''u1''),
                       Clock_p1 12000,
                       Call_reject_p1 (sock ''u1'' ''s1'') ''c2'' ''u3'' None,
                       Clock_p1 30000] p1_ringing))) ''c1'' = None
   \<and> filter (is_timeout_of ''c1'')
         (fst (run_p1 [Join_conversation_p1 (sock ''u3'' ''s3'') ''u1'',
                       Call_initiate_p1 (sock ''u3'' ''s3'') (call_of_p1 ''c2'' ''u3'' ''u1''),
                       Clock_p1 12000,
                       Call_reject_p1 (sock ''u1'' ''s1'') ''c2'' ''u3'' None,
                       Clock_p1 30000] p1_ringing))
       = [(ToRoom ''u1'', call_timeout ''c1'' (Some ''No answer from recipient'')),
          (ToRoom ''u2'', call_timeout ''c1'' (Some ''Call timed out''))]
   \<and> reachable server_ringing
   \<and> map_of (activeCalls
         (run [Call_accept (sock ''u2'' ''s2'') ''c1'' ''u1'',
               Webrtc_offer (sock ''u1'' ''s1'') ''c1'' ''u2'' ''sdp'',
               Clock 3600000] server_ringing)) ''c1''
       = Some (call_of ''c1'' ''u1'' ''u2'')"
proof -
  define es where
    "es = [Join_conversation_p1 (sock ''u3'' ''s3'') ''u1'',
           Call_initiate_p1 (sock ''u3'' ''s3'') (call_of_p1 ''c2'' ''u3'' ''u1''),
           Clock_p1 12000,
           Call_reject_p1 (sock ''u1'' ''s1'') ''c2'' ''u3'' None,
           Clock_p1 30000]"
  define esV where
    "esV = [Call_accept (sock ''u2'' ''s2'') ''c1'' ''u1'',
            Webrtc_offer (sock ''u1'' ''s1'') ''c1'' ''u2'' ''sdp'',
            Clock 3600000]"
  let ?s = "snd (run_p1 p1_connections server0) :: CallDataN server"
  let ?d = "call_of_p1 ''c1'' ''u1'' ''u2''"
  have r: "reachable_p1 ?s"
    by (rule reachable_p1_run [OF reachable_p1.fresh_p1])
  have s1: "snd (on_call_initiate_p1 (sock ''u1'' ''s1'') ?d ?s) = p1_ringing"
    unfolding p1_ringing_def run_p1_append by (simp add: p1_call_def)
  have h2: "callerId ?d = data_userId (sock ''u1'' ''s1'')"
    by (simp add: call_of_p1_def sock_def)
  have h3: "map_of (connectedUsers ?s) (recipientId ?d) \<noteq> None"
    by (simp add: p1_online_eq call_of_p1_def)
  have h4: "find (\<lambda>call. recipientId call = recipientId ?d) (map snd (activeCalls ?s)) = None"
    by (simp add: p1_online_eq)
  have h5: "\<forall>e \<in> set es. \<not> touches_call_p1 (callId ?d) (callerId ?d) (recipientId ?d) e"
    by (simp add: es_def call_of_p1_def sock_def)
  have clock: "30000 \<le> now (snd (run_p1 es p1_ringing))"
    unfolding es_def
    using clock_reached
      [of 30000 "[Join_conversation_p1 (sock ''u3'' ''s3'') ''u1'',
                  Call_initiate_p1 (sock ''u3'' ''s3'') (call_of_p1 ''c2'' ''u3'' ''u1''),
                  Clock_p1 12000,
                  Call_reject_p1 (sock ''u1'' ''s1'') ''c2'' ''u3'' None]" p1_ringing]
    by simp
  have v1: "reachable server_ringing" by (rule reachable_server_ringing)
  have v2: "map_of (activeCalls server_ringing) ''c1'' = Some (call_of ''c1'' ''u1'' ''u2'')"
    by (simp add: server_ringing_eq)
  have v3: "\<forall>e \<in> set esV. \<not> removes_call ''c1'' (callerId (call_of ''c1'' ''u1'' ''u2''))
                                (recipientId (call_of ''c1'' ''u1'' ''u2'')) e"
    by (simp add: esV_def)
  note inst = C4_ringing_call_times_out
      [of ?s ?d "sock ''u1'' ''s1''" es server_ringing "''c1''" "call_of ''c1'' ''u1'' ''u2''" esV]
  have late: "now ?s + 30000 \<le> now (snd (run_p1 es (snd (on_call_initiate_p1 (sock ''u1'' ''s1'') ?d ?s))))"
  proof -
    have "now ?s = 0" by (simp add: p1_online_eq)
    then show ?thesis unfolding s1 using clock by simp
  qed
  from inst r h2 h3 h4 h5 late
  have gone: "map_of (activeCalls (snd (run_p1 es (snd (on_call_initiate_p1 (sock ''u1'' ''s1'') ?d ?s)))))
                (callId ?d) = None"
    and once: "filter (is_timeout_of (callId ?d))
                 (fst (run_p1 es (snd (on_call_initiate_p1 (sock ''u1'' ''s1'') ?d ?s))))
               = [(ToRoom (callerId ?d), call_timeout (callId ?d) (Some ''No answer from recipient'')),
                  (ToRoom (recipientId ?d), call_timeout (callId ?d) (Some ''Call timed out''))]"
    by blast+
  from inst v1 v2 v3
  have stays: "map_of (activeCalls (run esV server_ringing)) ''c1''
                 = Some (call_of ''c1'' ''u1'' ''u2'')"
    by blast
  have q: "timers p1_ringing = [\<lparr>handle = 0, due = 30000, forCall = ''c1''\<rparr>]"
    by (simp add: p1_ringing_eq)
  have ids: "callId ?d = ''c1''" "callerId ?d = ''u1''" "recipientId ?d = ''u2''"
    by (simp_all add: call_of_p1_def)
  show ?thesis
    using r s1 q gone once v1 stays
    unfolding s1 ids es_def esV_def by blast
qed

section \<open>C1: one call per callee\<close>

text \<open>
  In \<open>socket.chat.ts\<close> the busy check looks at every active call of the callee, and
  every reachable state has at most one active call per callee.
\<close>

lemma handler_accepted_eq:
  "handler_accepted =
     \<lparr>now = 0, activeConversations = [], connectedUsers = [],
      activeCalls =
        [(''c1'', \<lparr>callId = ''c1'', callType = video, callerId = ''u1'', callerName = ''caller'',
                   callerImage = None, recipientId = ''u2'', timestamp = 0, status = accepted\<rparr>)],
      callTimeouts = [], timers = [], nextTimer = 1\<rparr>"
  by (simp add: handler_accepted_def handler_ringing_eq handleCallAccept_def sock_def
      clearCallTimeout_def clearTimeout_def)

lemma filter_update_le:
  "length (filter P (AList.update k v xs)) \<le> length (filter P xs) + (if P (k, v) then 1 else 0)"
  by (induction xs) auto

lemma filter_filter_le: "length (filter P (filter Q xs)) \<le> length (filter P xs)"
  by (induction xs) auto

lemma callee_once_step:
  assumes "\<forall>u. length (filter (\<lambda>p. recipientId (snd p) = u) (activeCalls s)) \<le> 1"
  shows "length (filter (\<lambda>p. recipientId (snd p) = u) (activeCalls (snd (dispatch e s)))) \<le> 1"
proof -
  from assms have old: "length (filter (\<lambda>p. recipientId (snd p) = u) (activeCalls s)) \<le> 1"
    by simp
  have sub: "\<And>Q. length (filter (\<lambda>p. recipientId (snd p) = u) (filter Q (activeCalls s))) \<le> 1"
    using old filter_filter_le [of "\<lambda>p. recipientId (snd p) = u" _ "activeCalls s"]
    by (rule le_trans [rotated])
  have del: "\<And>k. length (filter (\<lambda>p. recipientId (snd p) = u) (AList.delete k (activeCalls s))) \<le> 1"
    unfolding delete_is_filter by (rule sub)
  show ?thesis
  proof (cases e)
    case (Call_initiate socket d)
    show ?thesis
    proof (cases "callerId d = data_userId socket
                  \<and> map_of (connectedUsers s) (recipientId d) \<noteq> None
                  \<and> find (\<lambda>call. recipientId call = recipientId d) (map snd (activeCalls s)) = None")
      case False
      with Call_initiate old show ?thesis
        by (auto simp: on_call_initiate_def split: option.splits)
    next
      case True
      define callData where
        "callData = \<lparr>callId = callId d, callType = callType d, callerId = callerId d,
                      callerName = callerName d, callerImage = callerImage d,
                      recipientId = recipientId d, timestamp = now s\<rparr>"
      from True Call_initiate
      have new: "activeCalls (snd (dispatch e s)) = AList.update (callId d) callData (activeCalls s)"
        by (auto simp: on_call_initiate_def Let_def callData_def)
      from True have free: "filter (\<lambda>p. recipientId (snd p) = recipientId d) (activeCalls s) = []"
        by (auto simp: find_None_iff filter_empty_conv)
      show ?thesis
      proof (cases "u = recipientId d")
        case True
        with free filter_update_le [of "\<lambda>p. recipientId (snd p) = u" "callId d" callData "activeCalls s"]
        show ?thesis by (simp add: new callData_def)
      next
        case False
        with old filter_update_le [of "\<lambda>p. recipientId (snd p) = u" "callId d" callData "activeCalls s"]
        show ?thesis by (simp add: new callData_def)
      qed
    qed
  next
    case (Disconnect socket)
    have "activeCalls (snd (dispatch e s))
            = filter (\<lambda>p. fst p \<notin> fst ` {q \<in> set (activeCalls s).
                                           callerId (snd q) = data_userId socket
                                           \<or> recipientId (snd q) = data_userId socket})
                (activeCalls s)"
      using Disconnect by (simp add: on_disconnect_def Let_def end_calls_of_activeCalls)
    then show ?thesis using sub by simp
  next
    case (Join_conversation socket other)
    with old show ?thesis
      by (auto simp: on_join_conversation_def Let_def split: option.splits)
  next
    case (Leave_conversation socket other)
    with old show ?thesis
      by (auto simp: on_leave_conversation_def Let_def split: option.splits)
  next
    case (Send_message socket r m mt)
    with old show ?thesis
      by (auto simp: on_send_message_def Let_def split: option.splits)
  qed (use old del in \<open>auto simp: handleConnection_def on_typing_def on_call_accept_def
        on_call_reject_def on_call_end_def on_call_timeout_def on_webrtc_offer_def
        on_webrtc_answer_def on_webrtc_ice_candidate_def idle_until_def Let_def
        split: option.splits\<close>)
qed

lemma reachable_callee_once:
  "reachable s \<Longrightarrow> length (filter (\<lambda>p. recipientId (snd p) = u) (activeCalls s)) \<le> 1"
proof (induction arbitrary: u rule: reachable.induct)
  case fresh
  then show ?case by (simp add: server0_def)
next
  case (event s e)
  from event.IH have "\<forall>u. length (filter (\<lambda>p. recipientId (snd p) = u) (activeCalls s)) \<le> 1"
    by simp
  then show ?case by (rule callee_once_step)
qed

lemma map_of_update_keeps: "map_of xs k \<noteq> None \<Longrightarrow> map_of (AList.update k' v xs) k \<noteq> None"
  by (simp add: update_conv')

lemma recipient_online_step:
  assumes "\<forall>p \<in> set (activeCalls s). map_of (connectedUsers s) (recipientId (snd p)) \<noteq> None"
  shows "\<forall>p \<in> set (activeCalls (snd (dispatch e s))).
           map_of (connectedUsers (snd (dispatch e s))) (recipientId (snd p)) \<noteq> None"
proof (cases e)
  case (Connection socket)
  with assms show ?thesis
    by (auto simp: handleConnection_def Let_def update_conv')
next
  case (Join_conversation socket other)
  with assms show ?thesis
    by (auto simp: on_join_conversation_def Let_def update_conv' split: option.splits)
next
  case (Leave_conversation socket other)
  with assms show ?thesis
    by (auto simp: on_leave_conversation_def Let_def update_conv' split: option.splits)
next
  case (Send_message socket r m mt)
  with assms show ?thesis
    by (auto simp: on_send_message_def Let_def split: option.splits)
next
  case (Call_initiate socket d)
  show ?thesis
  proof (cases "callerId d = data_userId socket
                \<and> map_of (connectedUsers s) (recipientId d) \<noteq> None
                \<and> find (\<lambda>call. recipientId call = recipientId d) (map snd (activeCalls s)) = None")
    case False
    with Call_initiate assms show ?thesis
      by (auto simp: on_call_initiate_def split: option.splits)
  next
    case True
    with Call_initiate assms set_update_subset [of "callId d" _ "activeCalls s"] show ?thesis
      by (fastforce simp: on_call_initiate_def Let_def)
  qed
next
  case (Disconnect socket)
  show ?thesis
  proof
    fix p assume "p \<in> set (activeCalls (snd (dispatch e s)))"
    with Disconnect
    have "p \<in> set (filter (\<lambda>p. fst p \<notin> fst ` {q \<in> set (activeCalls s).
                                   callerId (snd q) = data_userId socket
                                   \<or> recipientId (snd q) = data_userId socket})
                      (activeCalls s))"
      by (simp add: on_disconnect_def Let_def end_calls_of_activeCalls)
    then have p: "p \<in> set (activeCalls s)"
      and other: "\<not> (callerId (snd p) = data_userId socket \<or> recipientId (snd p) = data_userId socket)"
      using no_call_of_user_left
        [of p "activeCalls s" "\<lambda>c. callerId c = data_userId socket \<or> recipientId c = data_userId socket"]
      by simp_all
    from p assms have "map_of (connectedUsers s) (recipientId (snd p)) \<noteq> None" by simp
    with other Disconnect
    show "map_of (connectedUsers (snd (dispatch e s))) (recipientId (snd p)) \<noteq> None"
      by (simp add: on_disconnect_def Let_def delete_conv)
  qed
next
  case (Call_reject socket cid caller reason)
  with assms set_delete_subset [of cid "activeCalls s"] show ?thesis
    by (auto simp: on_call_reject_def)
next
  case (Call_end socket cid recipient)
  with assms set_delete_subset [of cid "activeCalls s"] show ?thesis
    by (auto simp: on_call_end_def Let_def)
next
  case (Call_timeout socket cid recipient)
  with assms set_delete_subset [of cid "activeCalls s"] show ?thesis
    by (auto simp: on_call_timeout_def)
qed (use assms in \<open>auto simp: on_typing_def on_call_accept_def on_webrtc_offer_def
      on_webrtc_answer_def on_webrtc_ice_candidate_def idle_until_def Let_def
      split: option.splits\<close>)

lemma reachable_recipient_online:
  "reachable s \<Longrightarrow>
   \<forall>p \<in> set (activeCalls s). map_of (connectedUsers s) (recipientId (snd p)) \<noteq> None"
proof (induction rule: reachable.induct)
  case fresh
  then show ?case by (simp add: server0_def)
next
  case (event s e)
  from event.IH show ?case by (rule recipient_online_step)
qed

text \<open>
  In every reachable state of \<open>socket.chat.ts\<close>, a callee who is the recipient of an
  active call is busy for every authenticated caller.
\<close>

lemma busy_callee_is_refused:
  assumes "reachable s"
    and "callerId d = data_userId socket"
    and "p \<in> set (activeCalls s)" and "recipientId (snd p) = recipientId d"
  shows "on_call_initiate socket d s
           = ([(ToSocket (socket_id socket),
                call_failed (callId d) ''Recipient is already in a call'')], s)"
proof -
  from reachable_recipient_online [OF assms(1)] assms(3,4)
  obtain recipientSocket where "map_of (connectedUsers s) (recipientId d) = Some recipientSocket"
    by fastforce
  moreover from assms(3,4)
  have "find (\<lambda>call. recipientId call = recipientId d) (map snd (activeCalls s)) \<noteq> None"
    by (auto simp: find_None_iff)
  ultimately show ?thesis
    using assms(2) by (auto simp: on_call_initiate_def)
qed

text \<open>
  C1. The claim: no user is the callee of two calls that are ringing or accepted, and an
  initiate to a callee who has such a call fails as busy. \<open>CallHandler\<close> breaks it: its
  busy check (under the comment \<open>Check if recipient is already in a call\<close>) looks only
  at calls whose status is \<open>ringing\<close>. Once \<open>u2\<close> has accepted \<open>c1\<close>, the initiate of
  \<open>u3\<close> to \<open>u2\<close> succeeds: \<open>u2\<close> is sent the invitation, \<open>u3\<close> is told the call is
  ringing, and \<open>activeCalls\<close> holds two calls with the callee \<open>u2\<close>, one accepted and
  one ringing.
\<close>

theorem C1_accepted_callee_is_called_again:
  "map (\<lambda>p. (fst p, recipientId (snd p), status (snd p))) (activeCalls handler_accepted)
     = [(''c1'', ''u2'', accepted)]
   \<and> fst (handleCallInitiate (sock ''u3'' ''s3'') (call_of ''c2'' ''u3'' ''u2'') handler_accepted)
       = [(ToRoom ''u2'', incoming_call ''c2'' video ''u3'' ''caller'' None 0),
          (ToSocket ''s3'', call_initiated ''c2'' ''u2'' ''ringing'')]
   \<and> map (\<lambda>p. (fst p, recipientId (snd p), status (snd p)))
         (activeCalls (snd (handleCallInitiate (sock ''u3'' ''s3'') (call_of ''c2'' ''u3'' ''u2'')
                              handler_accepted)))
       = [(''c1'', ''u2'', accepted), (''c2'', ''u2'', ringing)]"
  by (simp add: handler_accepted_eq handleCallInitiate_def sock_def call_of_def setTimeout_def
      Let_def)

end
